theory Spec2Isabelle
  imports Complex_Main "HOL-Library.Sublist" "HOL-Library.AList"
begin

section \<open>JavaScript values\<close>

text \<open>
  The service handles untyped data: the replies of the upstream providers, the values
  it catches as errors and the game context a caller passes are whatever arrives at run
  time (the casts \<^verbatim>\<open>as GameState\<close> and \<^verbatim>\<open>error: any\<close> check nothing). They are
  modelled as JavaScript values. An object is the list of its own properties; a look-up
  takes the first binding of a name. A number is a real: the rounding of a double, NaN
  and the infinities are not represented.
\<close>

datatype jsval =
    JUndefined
  | JNull
  | JBool bool
  | JNum real
  | JStr string
  | JArr "jsval list"
  | JObj "(string \<times> jsval) list"

text \<open>
  The built-ins of the JavaScript engine that are not modelled here are parameters:
  \<^verbatim>\<open>JSON.parse\<close> on a string (\<open>Inl\<close> the SyntaxError it throws, whose message the
  engine chooses) and the decimal text of a number.
\<close>

record js_runtime =
  JSON_parse :: "string \<Rightarrow> jsval + jsval"
  Number_toString :: "real \<Rightarrow> string"

text \<open>An exception is the thrown value on the left of a sum.\<close>

definition bindE :: "jsval + 'a \<Rightarrow> ('a \<Rightarrow> jsval + 'b) \<Rightarrow> jsval + 'b" where
  "bindE m f = (case m of Inl e \<Rightarrow> Inl e | Inr x \<Rightarrow> f x)"

definition catchE :: "jsval + 'a \<Rightarrow> (jsval \<Rightarrow> jsval + 'a) \<Rightarrow> jsval + 'a" where
  "catchE m h = (case m of Inl e \<Rightarrow> h e | Inr x \<Rightarrow> Inr x)"

text \<open>\<^verbatim>\<open>new Error(msg)\<close> and the TypeError of the engine.\<close>

definition mkError :: "string \<Rightarrow> jsval" where
  "mkError msg = JObj [(''name'', JStr ''Error''), (''message'', JStr msg)]"

definition mkTypeError :: "string \<Rightarrow> jsval" where
  "mkTypeError msg = JObj [(''name'', JStr ''TypeError''), (''message'', JStr msg)]"

text \<open>Truthiness, and \<^verbatim>\<open>a || b\<close>.\<close>

fun truthy :: "jsval \<Rightarrow> bool" where
  "truthy JUndefined = False"
| "truthy JNull = False"
| "truthy (JBool b) = b"
| "truthy (JNum r) = (r \<noteq> 0)"
| "truthy (JStr s) = (s \<noteq> [])"
| "truthy (JArr xs) = True"
| "truthy (JObj kvs) = True"

definition or_else :: "jsval \<Rightarrow> jsval \<Rightarrow> jsval" where
  "or_else a b = (if truthy a then a else b)"

fun nullish :: "jsval \<Rightarrow> bool" where
  "nullish JUndefined = True"
| "nullish JNull = True"
| "nullish v = False"

text \<open>
  Reading a property. None of the names the service reads is a built-in property of
  a string, a number, a boolean or an array, so on those the result is undefined.
  \<^verbatim>\<open>v.k\<close> throws on undefined and null; \<^verbatim>\<open>v?.k\<close> gives undefined there.
\<close>

fun own_prop :: "jsval \<Rightarrow> string \<Rightarrow> jsval" where
  "own_prop (JObj kvs) k = (case map_of kvs k of None \<Rightarrow> JUndefined | Some v \<Rightarrow> v)"
| "own_prop v k = JUndefined"

fun type_name :: "jsval \<Rightarrow> string" where
  "type_name JNull = ''null''"
| "type_name v = ''undefined''"

definition get_prop :: "jsval \<Rightarrow> string \<Rightarrow> jsval + jsval" where
  "get_prop v k =
     (if nullish v
      then Inl (mkTypeError (''Cannot read properties of '' @ type_name v @
                  '' (reading '' @ [CHR 0x27] @ k @ [CHR 0x27] @ '')''))
      else Inr (own_prop v k))"

definition opt_prop :: "jsval \<Rightarrow> string \<Rightarrow> jsval" where
  "opt_prop v k = (if nullish v then JUndefined else own_prop v k)"

text \<open>\<^verbatim>\<open>v[0]\<close>: an element of an array, a character of a string, the property "0".\<close>

fun own_index0 :: "jsval \<Rightarrow> jsval" where
  "own_index0 (JArr xs) = (case xs of [] \<Rightarrow> JUndefined | x # _ \<Rightarrow> x)"
| "own_index0 (JStr s) = (case s of [] \<Rightarrow> JUndefined | c # _ \<Rightarrow> JStr [c])"
| "own_index0 (JObj kvs) = own_prop (JObj kvs) ''0''"
| "own_index0 v = JUndefined"

definition get_index0 :: "jsval \<Rightarrow> jsval + jsval" where
  "get_index0 v =
     (if nullish v
      then Inl (mkTypeError (''Cannot read properties of '' @ type_name v @
                  '' (reading '' @ [CHR 0x27] @ ''0'' @ [CHR 0x27] @ '')''))
      else Inr (own_index0 v))"

definition opt_index0 :: "jsval \<Rightarrow> jsval" where
  "opt_index0 v = (if nullish v then JUndefined else own_index0 v)"

text \<open>
  The string of a value, as a template literal and \<^verbatim>\<open>Array.prototype.join\<close> take it
  (\<open>join\<close> writes undefined and null as the empty string).
\<close>

fun intercalate :: "string \<Rightarrow> string list \<Rightarrow> string" where
  "intercalate sep [] = []"
| "intercalate sep [x] = x"
| "intercalate sep (x # y # ys) = x @ sep @ intercalate sep (y # ys)"

fun ToString :: "js_runtime \<Rightarrow> jsval \<Rightarrow> string" where
  "ToString rt JUndefined = ''undefined''"
| "ToString rt JNull = ''null''"
| "ToString rt (JBool b) = (if b then ''true'' else ''false'')"
| "ToString rt (JNum r) = Number_toString rt r"
| "ToString rt (JStr s) = s"
| "ToString rt (JArr xs) =
     intercalate '','' (map (\<lambda>x. if nullish x then [] else ToString rt x) xs)"
| "ToString rt (JObj kvs) = ''[object Object]''"

definition join :: "js_runtime \<Rightarrow> string \<Rightarrow> jsval \<Rightarrow> jsval + string" where
  "join rt sep v =
     (case v of
        JArr xs \<Rightarrow> Inr (intercalate sep (map (\<lambda>x. if nullish x then [] else ToString rt x) xs))
      | _ \<Rightarrow> Inl (mkTypeError ''(intermediate value).join is not a function''))"

text \<open>
  \<^verbatim>\<open>String.prototype.toLowerCase\<close> on the letters A to Z (a string is a list of bytes
  here; other characters are left as they are) and \<^verbatim>\<open>String.prototype.includes\<close>.
\<close>

definition lower_char :: "char \<Rightarrow> char" where
  "lower_char c =
     (case map_of (zip ''ABCDEFGHIJKLMNOPQRSTUVWXYZ'' ''abcdefghijklmnopqrstuvwxyz'') c of
        None \<Rightarrow> c
      | Some d \<Rightarrow> d)"

definition toLowerCase :: "string \<Rightarrow> string" where
  "toLowerCase s = map lower_char s"

definition str_includes :: "string \<Rightarrow> string \<Rightarrow> bool" where
  "str_includes s needle = sublist needle s"


section \<open>The browser's key-value store\<close>

text \<open>
  \<^verbatim>\<open>localStorage\<close> holds strings under string keys and has a finite capacity: a write
  that would take the stored keys and values over the quota throws the DOMException named
  QuotaExceededError and stores nothing. Reading and removing never throw.
\<close>

datatype dom_exception = DOMException (exn_name: string)

record localStorage =
  items :: "(string \<times> string) list"
  quota :: nat

definition stored_size :: "(string \<times> string) list \<Rightarrow> nat" where
  "stored_size kvs = sum_list (map (\<lambda>(k, v). length k + length v) kvs)"

definition getItem :: "localStorage \<Rightarrow> string \<Rightarrow> string option" where
  "getItem ls k = map_of (items ls) k"

definition setItem :: "localStorage \<Rightarrow> string \<Rightarrow> string \<Rightarrow> dom_exception + localStorage" where
  "setItem ls k v =
     (let items' = AList.update k v (items ls)
      in if stored_size items' \<le> quota ls
         then Inr (ls\<lparr>items := items'\<rparr>)
         else Inl (DOMException ''QuotaExceededError''))"

definition removeItem :: "localStorage \<Rightarrow> string \<Rightarrow> localStorage" where
  "removeItem ls k = ls\<lparr>items := AList.delete k (items ls)\<rparr>"

section \<open>Providers and the credential store\<close>

text \<open>
  Modelled from the spec: the enum \<^verbatim>\<open>AIProvider\<close> of \<^verbatim>\<open>types.ts\<close> is not among the
  sources (the \<^verbatim>\<open>types.ts\<close> at hand predates it). The spec has three provider
  identifiers, and \<^verbatim>\<open>aiServiceSimple.test.ts\<close> fixes their values as the strings below.
  A provider is a string, since callers pass identifiers outside the enum
  (\<^verbatim>\<open>'UNKNOWN' as AIProvider\<close>).
\<close>

type_synonym AIProvider = string

definition GEMINI :: AIProvider where "GEMINI = ''gemini''"
definition OPENAI :: AIProvider where "OPENAI = ''openai''"
definition CLAUDE :: AIProvider where "CLAUDE = ''claude''"

definition AIProvider_values :: "AIProvider list" where
  "AIProvider_values = [GEMINI, OPENAI, CLAUDE]"

definition API_KEY_STORAGE_PREFIX :: string where
  "API_KEY_STORAGE_PREFIX = ''CHRONICLE_WEAVER_API_KEY_''"

definition getStoredApiKey :: "localStorage \<Rightarrow> AIProvider \<Rightarrow> string" where
  "getStoredApiKey ls provider =
     (case getItem ls (API_KEY_STORAGE_PREFIX @ provider) of
        None \<Rightarrow> []
      | Some key \<Rightarrow> if key \<noteq> [] then key else [])"

definition setStoredApiKey :: "localStorage \<Rightarrow> AIProvider \<Rightarrow> string \<Rightarrow> dom_exception + localStorage" where
  "setStoredApiKey ls provider key =
     (if key \<noteq> []
      then setItem ls (API_KEY_STORAGE_PREFIX @ provider) key
      else Inr (removeItem ls (API_KEY_STORAGE_PREFIX @ provider)))"

definition hasApiKey :: "localStorage \<Rightarrow> AIProvider \<Rightarrow> bool" where
  "hasApiKey ls provider = (length (getStoredApiKey ls provider) > 0)"

definition clearAllApiKeys :: "localStorage \<Rightarrow> localStorage" where
  "clearAllApiKeys ls =
     foldl (\<lambda>st provider. removeItem st (API_KEY_STORAGE_PREFIX @ provider)) ls AIProvider_values"

definition getProviderKey :: "localStorage \<Rightarrow> AIProvider \<Rightarrow> string" where
  "getProviderKey ls provider = getStoredApiKey ls provider"

section \<open>The upstream services\<close>

text \<open>
  A network call is recorded with what the adapter sends: a \<^verbatim>\<open>fetch\<close> (always a POST)
  with its URL, headers and the value whose JSON text is the body; a
  \<^verbatim>\<open>generateContent\<close> of the Gemini SDK with the API key, the model, the contents and
  the configuration; a chat's \<^verbatim>\<open>sendMessage\<close> with the API key, the model, the system
  instruction and the message. The upstream decides the outcome of each call: it rejects
  with a value, or resolves. A resolved \<^verbatim>\<open>fetch\<close> is a response with its HTTP status
  (which the adapters never read: they look at \<^verbatim>\<open>ok\<close> and \<^verbatim>\<open>statusText\<close>) and a body read
  by \<^verbatim>\<open>json()\<close> or \<^verbatim>\<open>text()\<close>, each of which may reject. Every function below returns
  the calls it made together with its result.
\<close>

datatype net_call =
    Fetch string "(string \<times> string) list" jsval
  | GenerateContent string string jsval jsval
  | ChatSendMessage string string string string

record http_response =
  ok :: bool
  status :: nat
  statusText :: string
  body_json :: "jsval + jsval"
  body_text :: "jsval + string"

record upstream =
  fetch :: "net_call \<Rightarrow> jsval + http_response"
  genai :: "net_call \<Rightarrow> jsval + jsval"

datatype ImageQuality = QualityStandard | QualityFast

record usage_envelope =
  inputTokens :: jsval
  outputTokens :: jsval
  isPremium :: "bool option"
  provider :: AIProvider

record ServiceResponse =
  data :: jsval
  usage :: usage_envelope

type_synonym service_result = "net_call list \<times> (jsval + ServiceResponse)"

section \<open>Error handlers\<close>

definition handleGeminiError :: "jsval \<Rightarrow> jsval" where
  "handleGeminiError error =
     (case or_else (or_else (opt_prop error ''message'')
                            (opt_prop (opt_prop error ''error'') ''message''))
                   (JStr []) of
        JStr s \<Rightarrow>
          (let errorMessage = toLowerCase s;
               errorCode = or_else (opt_prop error ''code'')
                                   (opt_prop (opt_prop error ''error'') ''code'')
           in if errorCode = JNum 403 \<or>
                 errorCode = JNum 404 \<or>
                 str_includes errorMessage ''permission'' \<or>
                 str_includes errorMessage ''not found'' \<or>
                 str_includes errorMessage ''api_key_invalid''
              then mkError ''API_KEY_ERROR''
              else error)
      | _ \<Rightarrow> mkTypeError ''(intermediate value).toLowerCase is not a function'')"

definition handleOpenAIError :: "jsval \<Rightarrow> jsval" where
  "handleOpenAIError error =
     (if opt_prop error ''status'' = JNum 401 then mkError ''API_KEY_ERROR'' else error)"

definition handleClaudeError :: "jsval \<Rightarrow> jsval" where
  "handleClaudeError error =
     (if opt_prop error ''status'' = JNum 401 then mkError ''API_KEY_ERROR'' else error)"


section \<open>Gemini adapter\<close>

definition storySchemaConfig :: jsval where
  "storySchemaConfig =
     JObj [(''responseMimeType'', JStr ''application/json''),
           (''responseSchema'',
            JObj [(''type'', JStr ''OBJECT''),
                  (''properties'',
                   JObj [(''storyText'', JObj [(''type'', JStr ''STRING'')]),
                         (''choices'', JObj [(''type'', JStr ''ARRAY''),
                                             (''items'', JObj [(''type'', JStr ''STRING'')])]),
                         (''inventory'', JObj [(''type'', JStr ''ARRAY''),
                                               (''items'', JObj [(''type'', JStr ''STRING'')])]),
                         (''currentQuest'', JObj [(''type'', JStr ''STRING'')]),
                         (''visualPrompt'', JObj [(''type'', JStr ''STRING'')]),
                         (''worldStyle'', JObj [(''type'', JStr ''STRING'')]),
                         (''genre'', JObj [(''type'', JStr ''STRING'')])]),
                  (''required'',
                   JArr [JStr ''storyText'', JStr ''choices'', JStr ''inventory'',
                         JStr ''currentQuest'', JStr ''visualPrompt'', JStr ''worldStyle'',
                         JStr ''genre''])])]"

text \<open>
  A failure to construct the SDK client counts as a rejection of the call. The parsed
  reply is returned as it is: the adapter relies on the response schema it requests.
\<close>

definition geminiStoryCall :: "localStorage \<Rightarrow> string \<Rightarrow> net_call" where
  "geminiStoryCall ls prompt =
     GenerateContent (getProviderKey ls GEMINI) ''gemini-2.0-flash-exp''
       (JStr prompt) storySchemaConfig"

definition geminiGenerateStory ::
  "js_runtime \<Rightarrow> upstream \<Rightarrow> localStorage \<Rightarrow> string \<Rightarrow> service_result" where
  "geminiGenerateStory rt up ls prompt =
     (let call = geminiStoryCall ls prompt
      in ([call],
          bindE (genai up call) (\<lambda>response.
          bindE (get_prop response ''usageMetadata'') (\<lambda>metadata.
          bindE (get_prop response ''text'') (\<lambda>txt.
          bindE (JSON_parse rt (ToString rt (or_else txt (JStr ''{}'')))) (\<lambda>parsed.
          Inr \<lparr>data = parsed,
               usage = \<lparr>inputTokens = or_else (opt_prop metadata ''promptTokenCount'') (JNum 0),
                         outputTokens = or_else (opt_prop metadata ''candidatesTokenCount'') (JNum 0),
                         isPremium = None,
                         provider = GEMINI\<rparr>\<rparr>))))))"

text \<open>
  The loop over the parts of the first candidate: the first part with a truthy
  \<^verbatim>\<open>inlineData\<close> gives the image. A string is iterated by characters, none of which has
  the property; any other value that is not an array is not iterable.
\<close>

fun scan_parts :: "js_runtime \<Rightarrow> jsval list \<Rightarrow> jsval + jsval" where
  "scan_parts rt [] = Inr JUndefined"
| "scan_parts rt (part # rest) =
     bindE (get_prop part ''inlineData'') (\<lambda>inlineData.
       if truthy inlineData
       then Inr (JStr (''data:image/png;base64,'' @ ToString rt (own_prop inlineData ''data'')))
       else scan_parts rt rest)"

definition find_inline_image :: "js_runtime \<Rightarrow> jsval \<Rightarrow> jsval + jsval" where
  "find_inline_image rt parts =
     (case parts of
        JArr xs \<Rightarrow> scan_parts rt xs
      | JStr s \<Rightarrow> Inr JUndefined
      | _ \<Rightarrow> Inl (mkTypeError ''(intermediate value) is not iterable''))"

definition geminiImageCall :: "localStorage \<Rightarrow> string \<Rightarrow> string \<Rightarrow> ImageQuality \<Rightarrow> net_call" where
  "geminiImageCall ls prompt style quality =
     (let fullPrompt =
            (if quality = QualityFast
             then ''Simple '' @ style @ '' style: '' @ prompt @ ''. Minimal detail, basic colors.''
             else ''Art Style: '' @ style @ ''. Scene: '' @ prompt @
                  ''. Cinematic lighting, evocative mood.'')
      in GenerateContent (getProviderKey ls GEMINI) ''gemini-2.0-flash-exp''
           (JObj [(''parts'', JArr [JObj [(''text'', JStr fullPrompt)]])]) JUndefined)"

definition geminiGenerateImage ::
  "js_runtime \<Rightarrow> upstream \<Rightarrow> localStorage \<Rightarrow> string \<Rightarrow> string \<Rightarrow> ImageQuality \<Rightarrow> service_result" where
  "geminiGenerateImage rt up ls prompt style quality =
     (let call = geminiImageCall ls prompt style quality
      in ([call],
          bindE (genai up call) (\<lambda>response.
          bindE (get_prop response ''candidates'') (\<lambda>candidates.
          bindE (find_inline_image rt
                   (or_else (opt_prop (opt_prop (opt_index0 candidates) ''content'') ''parts'')
                            (JArr []))) (\<lambda>imageData.
          bindE (get_prop response ''usageMetadata'') (\<lambda>metadata.
          Inr \<lparr>data = imageData,
               usage = \<lparr>inputTokens = or_else (opt_prop metadata ''promptTokenCount'') (JNum 0),
                         outputTokens = or_else (opt_prop metadata ''candidatesTokenCount'') (JNum 0),
                         isPremium = Some False,
                         provider = GEMINI\<rparr>\<rparr>))))))"

section \<open>OpenAI and Claude adapters\<close>

text \<open>
  The object literal both story adapters build from the parsed reply, inside their
  \<^verbatim>\<open>try\<close>: each field falls back to its default when the reply's value is falsy.
  Reading a property of a null reply throws.
\<close>

definition gameStateWithDefaults :: "jsval \<Rightarrow> jsval + jsval" where
  "gameStateWithDefaults parsed =
     bindE (get_prop parsed ''storyText'') (\<lambda>storyText.
     Inr (JObj [(''storyText'', or_else storyText (JStr ''The story begins...'')),
                (''choices'', or_else (own_prop parsed ''choices'') (JArr [JStr ''Continue''])),
                (''inventory'', or_else (own_prop parsed ''inventory'') (JArr [])),
                (''currentQuest'', or_else (own_prop parsed ''currentQuest'') (JStr ''Unknown quest'')),
                (''visualPrompt'', or_else (own_prop parsed ''visualPrompt'') (JStr ''A mysterious scene'')),
                (''worldStyle'', or_else (own_prop parsed ''worldStyle'') (JStr ''fantasy'')),
                (''genre'', or_else (own_prop parsed ''genre'') (JStr ''Fantasy''))]))"

definition openaiStoryCall :: "localStorage \<Rightarrow> string \<Rightarrow> net_call" where
  "openaiStoryCall ls prompt =
     Fetch ''https://api.openai.com/v1/chat/completions''
       [(''Authorization'', ''Bearer '' @ getProviderKey ls OPENAI),
        (''Content-Type'', ''application/json'')]
       (JObj [(''model'', JStr ''gpt-4o-mini''),
              (''messages'', JArr [JObj [(''role'', JStr ''user''), (''content'', JStr prompt)]]),
              (''response_format'', JObj [(''type'', JStr ''json_object'')])])"

definition openaiGenerateStory ::
  "js_runtime \<Rightarrow> upstream \<Rightarrow> localStorage \<Rightarrow> string \<Rightarrow> service_result" where
  "openaiGenerateStory rt up ls prompt =
     (let call = openaiStoryCall ls prompt
      in ([call],
          bindE (fetch up call) (\<lambda>response.
          if \<not> ok response
          then Inl (mkError (''OpenAI API error: '' @ statusText response))
          else
          bindE (body_json response) (\<lambda>data.
          bindE (catchE
                   (bindE (get_prop data ''choices'') (\<lambda>choices.
                    bindE (get_index0 choices) (\<lambda>choice.
                    bindE (get_prop choice ''message'') (\<lambda>message.
                    bindE (get_prop message ''content'') (\<lambda>content.
                    bindE (JSON_parse rt (ToString rt content)) (\<lambda>parsed.
                    gameStateWithDefaults parsed))))))
                   (\<lambda>parseError. Inl (mkError ''Invalid response format from OpenAI'')))
                (\<lambda>gameState.
          bindE (get_prop data ''usage'') (\<lambda>u.
          bindE (get_prop u ''prompt_tokens'') (\<lambda>prompt_tokens.
          bindE (get_prop u ''completion_tokens'') (\<lambda>completion_tokens.
          Inr \<lparr>data = gameState,
               usage = \<lparr>inputTokens = prompt_tokens,
                         outputTokens = completion_tokens,
                         isPremium = None,
                         provider = OPENAI\<rparr>\<rparr>))))))))"

definition openaiImageCall :: "localStorage \<Rightarrow> string \<Rightarrow> string \<Rightarrow> ImageQuality \<Rightarrow> net_call" where
  "openaiImageCall ls prompt style quality =
     (let fullPrompt =
            (if quality = QualityFast
             then ''Simple '' @ style @ '' style: '' @ prompt @ ''. Minimal detail, flat colors.''
             else ''Art Style: '' @ style @ ''. Scene: '' @ prompt @
                  ''. Cinematic lighting, evocative mood.'')
      in Fetch ''https://api.openai.com/v1/images/generations''
           [(''Authorization'', ''Bearer '' @ getProviderKey ls OPENAI),
            (''Content-Type'', ''application/json'')]
           (JObj [(''model'', JStr ''dall-e-3''),
                  (''prompt'', JStr fullPrompt),
                  (''size'', JStr (if quality = QualityFast then ''1024x1024'' else ''1024x1024'')),
                  (''quality'', JStr ''standard''),
                  (''style'', JStr (if quality = QualityFast then ''natural'' else ''vivid''))]))"

definition openaiGenerateImage ::
  "js_runtime \<Rightarrow> upstream \<Rightarrow> localStorage \<Rightarrow> string \<Rightarrow> string \<Rightarrow> ImageQuality \<Rightarrow> service_result" where
  "openaiGenerateImage rt up ls prompt style quality =
     (let call = openaiImageCall ls prompt style quality
      in ([call],
          bindE (fetch up call) (\<lambda>response.
          if \<not> ok response
          then bindE (body_text response) (\<lambda>errorText.
               Inl (mkError (''OpenAI API error: '' @ statusText response @ '' - '' @ errorText)))
          else
          bindE (body_json response) (\<lambda>d.
          bindE (get_prop d ''data'') (\<lambda>images.
          bindE (get_index0 images) (\<lambda>image0.
          bindE (get_prop image0 ''url'') (\<lambda>url.
          Inr \<lparr>data = url,
               usage = \<lparr>inputTokens = JNum 0,
                         outputTokens = JNum 0,
                         isPremium = Some True,
                         provider = OPENAI\<rparr>\<rparr>)))))))"

definition claudeStoryCall :: "localStorage \<Rightarrow> string \<Rightarrow> net_call" where
  "claudeStoryCall ls prompt =
     Fetch ''https://api.anthropic.com/v1/messages''
       [(''x-api-key'', getProviderKey ls CLAUDE),
        (''Content-Type'', ''application/json''),
        (''anthropic-version'', ''2023-06-01'')]
       (JObj [(''model'', JStr ''claude-3-5-haiku-20241022''),
              (''max_tokens'', JNum 1000),
              (''messages'', JArr [JObj [(''role'', JStr ''user''), (''content'', JStr prompt)]])])"

definition claudeGenerateStory ::
  "js_runtime \<Rightarrow> upstream \<Rightarrow> localStorage \<Rightarrow> string \<Rightarrow> service_result" where
  "claudeGenerateStory rt up ls prompt =
     (let call = claudeStoryCall ls prompt
      in ([call],
          bindE (fetch up call) (\<lambda>response.
          if \<not> ok response
          then Inl (mkError (''Claude API error: '' @ statusText response))
          else
          bindE (body_json response) (\<lambda>data.
          bindE (catchE
                   (bindE (get_prop data ''content'') (\<lambda>blocks.
                    bindE (get_index0 blocks) (\<lambda>block.
                    bindE (get_prop block ''text'') (\<lambda>txt.
                    bindE (JSON_parse rt (ToString rt txt)) (\<lambda>parsed.
                    gameStateWithDefaults parsed)))))
                   (\<lambda>parseError. Inl (mkError ''Invalid response format from Claude'')))
                (\<lambda>gameState.
          bindE (get_prop data ''usage'') (\<lambda>u.
          bindE (get_prop u ''input_tokens'') (\<lambda>input_tokens.
          bindE (get_prop u ''output_tokens'') (\<lambda>output_tokens.
          Inr \<lparr>data = gameState,
               usage = \<lparr>inputTokens = input_tokens,
                         outputTokens = output_tokens,
                         isPremium = None,
                         provider = CLAUDE\<rparr>\<rparr>))))))))"

definition claudeGenerateImage :: service_result where
  "claudeGenerateImage =
     ([], Inr \<lparr>data = JUndefined,
               usage = \<lparr>inputTokens = JNum 0,
                         outputTokens = JNum 0,
                         isPremium = None,
                         provider = CLAUDE\<rparr>\<rparr>)"


section \<open>The dispatch facade\<close>

text \<open>The \<^verbatim>\<open>switch\<close> each \<^verbatim>\<open>catch\<close> block of the facade runs on the provider.\<close>

definition handleProviderError :: "AIProvider \<Rightarrow> jsval \<Rightarrow> jsval" where
  "handleProviderError prov error =
     (if prov = GEMINI then handleGeminiError error
      else if prov = OPENAI then handleOpenAIError error
      else if prov = CLAUDE then handleClaudeError error
      else error)"

definition generateStoryBeat ::
  "js_runtime \<Rightarrow> upstream \<Rightarrow> localStorage \<Rightarrow> string \<Rightarrow> AIProvider \<Rightarrow> service_result" where
  "generateStoryBeat rt up ls prompt prov =
     (let (calls, r) =
            (if prov = GEMINI then geminiGenerateStory rt up ls prompt
             else if prov = OPENAI then openaiGenerateStory rt up ls prompt
             else if prov = CLAUDE then claudeGenerateStory rt up ls prompt
             else ([], Inl (mkError (''Unsupported provider: '' @ prov))))
      in (calls, catchE r (\<lambda>error. Inl (handleProviderError prov error))))"

definition generateImage ::
  "js_runtime \<Rightarrow> upstream \<Rightarrow> localStorage \<Rightarrow> string \<Rightarrow> string \<Rightarrow> AIProvider \<Rightarrow> ImageQuality
     \<Rightarrow> service_result" where
  "generateImage rt up ls prompt style prov quality =
     (let (calls, r) =
            (if prov = GEMINI then geminiGenerateImage rt up ls prompt style quality
             else if prov = OPENAI then openaiGenerateImage rt up ls prompt style quality
             else if prov = CLAUDE then claudeGenerateImage
             else ([], Inl (mkError (''Unsupported provider: '' @ prov))))
      in (calls, catchE r (\<lambda>error. Inl (handleProviderError prov error))))"

section \<open>Chat\<close>

text \<open>
  The system instruction is the same template literal in the three branches of
  \<^verbatim>\<open>getChatResponse\<close>, up to the indentation of its continuation lines (twelve
  spaces for Gemini and Claude, sixteen for OpenAI): \<open>personaText\<close>, of the texts of
  the genre and the quest and the joined inventory. It is built before the call is sent,
  so an exception in it leaves the network untouched.
\<close>

definition personaText :: "nat \<Rightarrow> string \<Rightarrow> string \<Rightarrow> string \<Rightarrow> string" where
  "personaText indent genreText questText itemList =
     ''You are the Chronicler, a wise and helpful sidekick in this infinite adventure game. '' @
     [CHR 0x0A] @ replicate indent CHR '' '' @
     ''The current genre is '' @ genreText @
     ''. The player's quest is: '' @ questText @ ''.'' @
     [CHR 0x0A] @ replicate indent CHR '' '' @
     ''Their inventory includes: '' @ itemList @ ''.'' @
     [CHR 0x0A] @ replicate indent CHR '' '' @
     ''If the genre is '80s Sci-Fi Horror', speak with 80s slang like 'rad', 'bogus', or 'tubular' occasionally.''"

definition chatPersona :: "js_runtime \<Rightarrow> nat \<Rightarrow> jsval \<Rightarrow> jsval + string" where
  "chatPersona rt indent gameContext =
     bindE (get_prop gameContext ''genre'') (\<lambda>genre.
     bindE (get_prop gameContext ''currentQuest'') (\<lambda>currentQuest.
     bindE (get_prop gameContext ''inventory'') (\<lambda>inventory.
     bindE (join rt '', '' (or_else inventory (JArr []))) (\<lambda>itemList.
     Inr (personaText indent (ToString rt genre) (ToString rt currentQuest) itemList)))))"

definition geminiChatCall :: "localStorage \<Rightarrow> string \<Rightarrow> string \<Rightarrow> net_call" where
  "geminiChatCall ls systemInstruction message =
     ChatSendMessage (getProviderKey ls GEMINI) ''gemini-2.0-flash-exp'' systemInstruction message"

definition geminiChat ::
  "js_runtime \<Rightarrow> upstream \<Rightarrow> localStorage \<Rightarrow> string \<Rightarrow> jsval \<Rightarrow> service_result" where
  "geminiChat rt up ls message gameContext =
     (case chatPersona rt 12 gameContext of
        Inl e \<Rightarrow> ([], Inl e)
      | Inr systemInstruction \<Rightarrow>
          (let call = geminiChatCall ls systemInstruction message
           in ([call],
               bindE (genai up call) (\<lambda>geminiResponse.
               bindE (get_prop geminiResponse ''usageMetadata'') (\<lambda>geminiMetadata.
               bindE (get_prop geminiResponse ''text'') (\<lambda>txt.
               Inr \<lparr>data = or_else txt (JStr ''I apologize, my vision is clouded...''),
                    usage = \<lparr>inputTokens = or_else (opt_prop geminiMetadata ''promptTokenCount'') (JNum 0),
                              outputTokens = or_else (opt_prop geminiMetadata ''candidatesTokenCount'') (JNum 0),
                              isPremium = None,
                              provider = GEMINI\<rparr>\<rparr>))))))"

definition openaiChatCall :: "localStorage \<Rightarrow> string \<Rightarrow> string \<Rightarrow> net_call" where
  "openaiChatCall ls systemInstruction message =
     Fetch ''https://api.openai.com/v1/chat/completions''
       [(''Authorization'', ''Bearer '' @ getProviderKey ls OPENAI),
        (''Content-Type'', ''application/json'')]
       (JObj [(''model'', JStr ''gpt-4o-mini''),
              (''messages'',
               JArr [JObj [(''role'', JStr ''system''), (''content'', JStr systemInstruction)],
                     JObj [(''role'', JStr ''user''), (''content'', JStr message)]])])"

definition openaiChat ::
  "js_runtime \<Rightarrow> upstream \<Rightarrow> localStorage \<Rightarrow> string \<Rightarrow> jsval \<Rightarrow> service_result" where
  "openaiChat rt up ls message gameContext =
     (case chatPersona rt 16 gameContext of
        Inl e \<Rightarrow> ([], Inl e)
      | Inr systemInstruction \<Rightarrow>
          (let call = openaiChatCall ls systemInstruction message
           in ([call],
               bindE (fetch up call) (\<lambda>openaiResponse.
               if \<not> ok openaiResponse
               then Inl (mkError (''OpenAI API error: '' @ statusText openaiResponse))
               else
               bindE (body_json openaiResponse) (\<lambda>openaiData.
               bindE (get_prop openaiData ''choices'') (\<lambda>choices.
               bindE (get_index0 choices) (\<lambda>choice.
               bindE (get_prop choice ''message'') (\<lambda>msg.
               bindE (get_prop msg ''content'') (\<lambda>content.
               bindE (get_prop openaiData ''usage'') (\<lambda>u.
               bindE (get_prop u ''prompt_tokens'') (\<lambda>prompt_tokens.
               bindE (get_prop u ''completion_tokens'') (\<lambda>completion_tokens.
               Inr \<lparr>data = content,
                    usage = \<lparr>inputTokens = prompt_tokens,
                              outputTokens = completion_tokens,
                              isPremium = None,
                              provider = OPENAI\<rparr>\<rparr>))))))))))))"

definition claudeChatCall :: "localStorage \<Rightarrow> string \<Rightarrow> string \<Rightarrow> net_call" where
  "claudeChatCall ls systemInstruction message =
     Fetch ''https://api.anthropic.com/v1/messages''
       [(''x-api-key'', getProviderKey ls CLAUDE),
        (''Content-Type'', ''application/json''),
        (''anthropic-version'', ''2023-06-01'')]
       (JObj [(''model'', JStr ''claude-3-5-haiku-20241022''),
              (''max_tokens'', JNum 1000),
              (''system'', JStr systemInstruction),
              (''messages'', JArr [JObj [(''role'', JStr ''user''), (''content'', JStr message)]])])"

definition claudeChat ::
  "js_runtime \<Rightarrow> upstream \<Rightarrow> localStorage \<Rightarrow> string \<Rightarrow> jsval \<Rightarrow> service_result" where
  "claudeChat rt up ls message gameContext =
     (case chatPersona rt 12 gameContext of
        Inl e \<Rightarrow> ([], Inl e)
      | Inr systemInstruction \<Rightarrow>
          (let call = claudeChatCall ls systemInstruction message
           in ([call],
               bindE (fetch up call) (\<lambda>claudeResponse.
               if \<not> ok claudeResponse
               then Inl (mkError (''Claude API error: '' @ statusText claudeResponse))
               else
               bindE (body_json claudeResponse) (\<lambda>claudeData.
               bindE (get_prop claudeData ''content'') (\<lambda>blocks.
               bindE (get_index0 blocks) (\<lambda>block.
               bindE (get_prop block ''text'') (\<lambda>txt.
               bindE (get_prop claudeData ''usage'') (\<lambda>u.
               bindE (get_prop u ''input_tokens'') (\<lambda>input_tokens.
               bindE (get_prop u ''output_tokens'') (\<lambda>output_tokens.
               Inr \<lparr>data = txt,
                    usage = \<lparr>inputTokens = input_tokens,
                              outputTokens = output_tokens,
                              isPremium = None,
                              provider = CLAUDE\<rparr>\<rparr>)))))))))))"

definition getChatResponse ::
  "js_runtime \<Rightarrow> upstream \<Rightarrow> localStorage \<Rightarrow> string \<Rightarrow> jsval \<Rightarrow> AIProvider \<Rightarrow> service_result" where
  "getChatResponse rt up ls message gameContext prov =
     (let (calls, r) =
            (if prov = GEMINI then geminiChat rt up ls message gameContext
             else if prov = OPENAI then openaiChat rt up ls message gameContext
             else if prov = CLAUDE then claudeChat rt up ls message gameContext
             else ([], Inl (mkError (''Unsupported provider: '' @ prov))))
      in (calls, catchE r (\<lambda>error. Inl (handleProviderError prov error))))"

section \<open>Cost estimate\<close>

text \<open>Prices and costs are reals: the arithmetic is exact, not that of doubles.\<close>

record pricing =
  input_rate :: real
  output_rate :: real
  image_rate :: real

definition GEMINI_FLASH :: pricing where
  "GEMINI_FLASH = \<lparr>input_rate = 0.1 / 1000000, output_rate = 0.4 / 1000000, image_rate = 0.0008\<rparr>"
definition GEMINI_PRO :: pricing where
  "GEMINI_PRO = \<lparr>input_rate = 1.25 / 1000000, output_rate = 5.0 / 1000000, image_rate = 0.04\<rparr>"
definition OPENAI_GPT4 :: pricing where
  "OPENAI_GPT4 = \<lparr>input_rate = 10 / 1000000, output_rate = 30 / 1000000, image_rate = 0.04\<rparr>"
definition OPENAI_GPT3_5 :: pricing where
  "OPENAI_GPT3_5 = \<lparr>input_rate = 0.5 / 1000000, output_rate = 1.5 / 1000000, image_rate = 0.02\<rparr>"
definition CLAUDE_HAIKU :: pricing where
  "CLAUDE_HAIKU = \<lparr>input_rate = 0.25 / 1000000, output_rate = 1.25 / 1000000, image_rate = 0.03\<rparr>"
definition CLAUDE_SONNET :: pricing where
  "CLAUDE_SONNET = \<lparr>input_rate = 3 / 1000000, output_rate = 15 / 1000000, image_rate = 0.06\<rparr>"

datatype ModelType = ModelFlash | ModelPro | ModelStandard

definition calculateEstimatedCost ::
  "real \<Rightarrow> real \<Rightarrow> real \<Rightarrow> real \<Rightarrow> AIProvider \<Rightarrow> ModelType \<Rightarrow> real" where
  "calculateEstimatedCost inputTokens' outputTokens' images premiumImages prov modelType =
     (let pricing =
            (if prov = GEMINI
               then (if modelType = ModelPro then GEMINI_PRO else GEMINI_FLASH)
             else if prov = OPENAI
               then (if modelType = ModelPro then OPENAI_GPT4 else OPENAI_GPT3_5)
             else if prov = CLAUDE
               then (if modelType = ModelPro then CLAUDE_SONNET else CLAUDE_HAIKU)
             else GEMINI_FLASH);
          textCost = (inputTokens' * input_rate pricing) + (outputTokens' * output_rate pricing);
          imageCost = (images * image_rate pricing) + (premiumImages * image_rate pricing)
      in textCost + imageCost)"


section \<open>Session persistence\<close>

text \<open>
  The types of \<^verbatim>\<open>types.ts\<close> the save slots are made of, and the effect of \<^verbatim>\<open>App\<close>
  that writes the slots to the store whenever the session changes. \<^verbatim>\<open>JSON.stringify\<close>
  on the slots is a parameter. The result holds the texts the effect tried to write, the
  slots its state updater returns (or the exception that leaves it) and the store
  afterwards.
\<close>

record GameState =
  storyText :: string
  choices :: "string list"
  inventory :: "string list"
  currentQuest :: string
  visualPrompt :: string
  worldStyle :: string
  genre :: string

datatype ChatRole = RoleUser | RoleModel

record ChatMessage =
  role :: ChatRole
  message_text :: string

record GameHistoryItem =
  item_text :: string
  choice :: string
  imageUrl :: "string option"
  state :: "GameState option"

record UsageStats =
  totalInputTokens :: real
  totalOutputTokens :: real
  imageCount :: real
  premiumImageCount :: real
  estimatedCost :: real

record SaveSlot =
  slot_id :: string
  slot_name :: string
  slot_genre :: string
  lastUpdated :: nat
  gameState :: GameState
  history :: "GameHistoryItem list"
  chatMessages :: "ChatMessage list"
  usageStats :: UsageStats

record sync_result =
  writes :: "string list"
  outcome :: "dom_exception + SaveSlot list"
  store_after :: localStorage

definition STORAGE_KEY :: string where
  "STORAGE_KEY = ''CHRONICLE_WEAVER_SAVES_V2''"

definition leanHistory :: "GameHistoryItem list \<Rightarrow> GameHistoryItem list" where
  "leanHistory h =
     map (\<lambda>(index, item). item\<lparr>imageUrl := (if index = 0 then imageUrl item else None)\<rparr>)
         (enumerate 0 h)"

definition superLean :: "SaveSlot list \<Rightarrow> SaveSlot list" where
  "superLean updated =
     map (\<lambda>s. s\<lparr>history := map (\<lambda>h. h\<lparr>imageUrl := None\<rparr>) (history s)\<rparr>) updated"

definition syncSaves ::
  "(SaveSlot list \<Rightarrow> string) \<Rightarrow> localStorage \<Rightarrow> GameState \<Rightarrow> string \<Rightarrow> GameHistoryItem list
     \<Rightarrow> ChatMessage list \<Rightarrow> UsageStats \<Rightarrow> nat \<Rightarrow> SaveSlot list \<Rightarrow> sync_result" where
  "syncSaves stringify ls gs currentSaveId h msgs stats now prevSaves =
     (let updated =
            map (\<lambda>s. if slot_id s = currentSaveId
                      then s\<lparr>gameState := gs, history := leanHistory h, chatMessages := msgs,
                             usageStats := stats, lastUpdated := now\<rparr>
                      else s)
                prevSaves
      in case setItem ls STORAGE_KEY (stringify updated) of
           Inr ls' \<Rightarrow>
             \<lparr>writes = [stringify updated], outcome = Inr updated, store_after = ls'\<rparr>
         | Inl error \<Rightarrow>
             if exn_name error = ''QuotaExceededError''
             then (let superLeanSaves = superLean updated
                   in case setItem ls STORAGE_KEY (stringify superLeanSaves) of
                        Inr ls' \<Rightarrow>
                          \<lparr>writes = [stringify updated, stringify superLeanSaves],
                           outcome = Inr updated, store_after = ls'\<rparr>
                      | Inl error2 \<Rightarrow>
                          \<lparr>writes = [stringify updated, stringify superLeanSaves],
                           outcome = Inl error2, store_after = ls\<rparr>)
             else \<lparr>writes = [stringify updated], outcome = Inr updated, store_after = ls\<rparr>)"

definition saveSyncEffect ::
  "(SaveSlot list \<Rightarrow> string) \<Rightarrow> localStorage \<Rightarrow> bool \<Rightarrow> GameState option \<Rightarrow> string option
     \<Rightarrow> GameHistoryItem list \<Rightarrow> ChatMessage list \<Rightarrow> UsageStats \<Rightarrow> nat \<Rightarrow> SaveSlot list
     \<Rightarrow> sync_result" where
  "saveSyncEffect stringify ls gameStarted gs currentSaveId h msgs stats now prevSaves =
     (case (gs, currentSaveId) of
        (Some g, Some saveId) \<Rightarrow>
          if gameStarted \<and> saveId \<noteq> []
          then syncSaves stringify ls g saveId h msgs stats now prevSaves
          else \<lparr>writes = [], outcome = Inr prevSaves, store_after = ls\<rparr>
      | _ \<Rightarrow> \<lparr>writes = [], outcome = Inr prevSaves, store_after = ls\<rparr>)"

section \<open>The older Gemini-only service\<close>







section \<open>The directive of a context with nothing to list\<close>


section \<open>The defaults of a story state, as the specification lists them\<close>

text \<open>
  The specification's table of the seven fields of a narrative state with their
  defaults, and the state it asks for from a parsed reply: each field is the reply's
  value when the reply has one (a truthy one), else the default. The adapters' own code
  is \<open>gameStateWithDefaults\<close> above.
\<close>

definition storyDefaults :: "(string \<times> jsval) list" where
  "storyDefaults =
     [(''storyText'', JStr ''The story begins...''),
      (''choices'', JArr [JStr ''Continue'']),
      (''inventory'', JArr []),
      (''currentQuest'', JStr ''Unknown quest''),
      (''visualPrompt'', JStr ''A mysterious scene''),
      (''worldStyle'', JStr ''fantasy''),
      (''genre'', JStr ''Fantasy'')]"

definition withStoryDefaults :: "jsval \<Rightarrow> jsval" where
  "withStoryDefaults parsed =
     JObj (map (\<lambda>(field, dflt).
                 (field, if truthy (own_prop parsed field) then own_prop parsed field else dflt))
               storyDefaults)"

section \<open>Concrete surroundings\<close>

text \<open>
  What the service is run on below. The runtime's \<^verbatim>\<open>JSON.parse\<close> knows two texts and
  rejects the rest; no run below prints a number. The stores are an empty one and one with
  no room left. The upstreams answer every call in a fixed way: \<open>upOK\<close> as the
  providers answer when all is well (the story replies of OpenAI and Claude carry only
  \<^verbatim>\<open>storyText\<close> and \<^verbatim>\<open>choices\<close>, Gemini's text is the empty object),
  \<open>upUnauthorized\<close> with the HTTP status 401, \<open>upRejectAuth\<close> by rejecting with
  errors that carry a status or code.
\<close>

definition partialReplyText :: string where
  "partialReplyText = ''{\"storyText\":\"X\",\"choices\":[\"Continue\"]}''"

definition partialReply :: jsval where
  "partialReply = JObj [(''storyText'', JStr ''X''), (''choices'', JArr [JStr ''Continue''])]"

definition rt0 :: js_runtime where
  "rt0 = \<lparr>JSON_parse = (\<lambda>s. if s = ''{}'' then Inr (JObj [])
                              else if s = partialReplyText then Inr partialReply
                              else Inl (JObj [(''name'', JStr ''SyntaxError''),
                                              (''message'', JStr ''Unexpected token'')])),
           Number_toString = (\<lambda>r. ''0'')\<rparr>"

definition emptyStore :: localStorage where
  "emptyStore = \<lparr>items = [], quota = 5000000\<rparr>"

definition fullStore :: localStorage where
  "fullStore = \<lparr>items = [], quota = 0\<rparr>"

definition okResponse :: "jsval \<Rightarrow> http_response" where
  "okResponse body =
     \<lparr>ok = True, status = 200, statusText = ''OK'', body_json = Inr body, body_text = Inr []\<rparr>"

definition networkError :: jsval where
  "networkError = JObj [(''name'', JStr ''TypeError''), (''message'', JStr ''Failed to fetch'')]"

definition openaiCompletionBody :: jsval where
  "openaiCompletionBody =
     JObj [(''choices'', JArr [JObj [(''message'', JObj [(''content'', JStr partialReplyText)])]]),
           (''usage'', JObj [(''prompt_tokens'', JNum 100), (''completion_tokens'', JNum 150)])]"

definition openaiImageBody :: jsval where
  "openaiImageBody =
     JObj [(''data'', JArr [JObj [(''url'', JStr ''https://example.com/image.png'')]])]"

definition claudeMessageBody :: jsval where
  "claudeMessageBody =
     JObj [(''content'', JArr [JObj [(''text'', JStr partialReplyText)]]),
           (''usage'', JObj [(''input_tokens'', JNum 100), (''output_tokens'', JNum 150)])]"

definition geminiContentReply :: jsval where
  "geminiContentReply =
     JObj [(''text'', JStr ''{}''),
           (''candidates'',
            JArr [JObj [(''content'',
                    JObj [(''parts'',
                           JArr [JObj [(''inlineData'', JObj [(''data'', JStr ''iVBORw0KGgo='')])]])])]]),
           (''usageMetadata'', JObj [(''promptTokenCount'', JNum 100),
                                     (''candidatesTokenCount'', JNum 150)])]"

definition geminiChatReply :: jsval where
  "geminiChatReply =
     JObj [(''text'', JStr ''Hello, brave adventurer!''),
           (''usageMetadata'', JObj [(''promptTokenCount'', JNum 50),
                                     (''candidatesTokenCount'', JNum 25)])]"

definition upOK :: upstream where
  "upOK =
     \<lparr>fetch = (\<lambda>call. case call of
          Fetch url headers body \<Rightarrow>
            if url = ''https://api.openai.com/v1/chat/completions''
            then Inr (okResponse openaiCompletionBody)
            else if url = ''https://api.openai.com/v1/images/generations''
            then Inr (okResponse openaiImageBody)
            else if url = ''https://api.anthropic.com/v1/messages''
            then Inr (okResponse claudeMessageBody)
            else Inl networkError
        | _ \<Rightarrow> Inl networkError),
      genai = (\<lambda>call. case call of
          GenerateContent key model contents config \<Rightarrow> Inr geminiContentReply
        | ChatSendMessage key model systemInstruction message \<Rightarrow> Inr geminiChatReply
        | _ \<Rightarrow> Inl networkError)\<rparr>"

definition upUnauthorized :: upstream where
  "upUnauthorized =
     \<lparr>fetch = (\<lambda>call. Inr \<lparr>ok = False, status = 401, statusText = ''Unauthorized'',
                            body_json = Inr (JObj []), body_text = Inr []\<rparr>),
      genai = (\<lambda>call. Inl (JObj [(''code'', JNum 401), (''message'', JStr ''Unauthorized'')]))\<rparr>"

definition upRejectAuth :: upstream where
  "upRejectAuth =
     \<lparr>fetch = (\<lambda>call. Inl (JObj [(''status'', JNum 401), (''message'', JStr ''Unauthorized'')])),
      genai = (\<lambda>call. Inl (JObj [(''code'', JNum 403), (''message'', JStr ''Forbidden'')]))\<rparr>"

definition contextWithoutInventory :: jsval where
  "contextWithoutInventory =
     JObj [(''storyText'', JStr ''A brave knight enters the dark forest.''),
           (''choices'', JArr [JStr ''Fight the monster'', JStr ''Run away'']),
           (''inventory'', JUndefined),
           (''currentQuest'', JStr ''Find the lost artifact''),
           (''visualPrompt'', JStr ''A knight''),
           (''worldStyle'', JStr ''medieval fantasy''),
           (''genre'', JStr ''High Fantasy'')]"

section \<open>Exceptions and property reads\<close>

lemma bindE_Inr_iff: "bindE m f = Inr r \<longleftrightarrow> (\<exists>x. m = Inr x \<and> f x = Inr r)"
  by (cases m) (simp_all add: bindE_def)

lemma bindE_Inr [simp]: "bindE (Inr x) f = f x"
  by (simp add: bindE_def)

lemma bindE_Inl [simp]: "bindE (Inl e) f = Inl e"
  by (simp add: bindE_def)

lemma catchE_Inr [simp]: "catchE (Inr x) h = Inr x"
  by (simp add: catchE_def)

lemma catchE_Inl [simp]: "catchE (Inl e) h = h e"
  by (simp add: catchE_def)

lemma catchE_Inr_iff: "catchE m (\<lambda>e. Inl (h e)) = Inr r \<longleftrightarrow> m = Inr r"
  by (cases m) simp_all

lemma provider_distinct:
  "GEMINI \<noteq> OPENAI" "GEMINI \<noteq> CLAUDE" "OPENAI \<noteq> CLAUDE"
  "OPENAI \<noteq> GEMINI" "CLAUDE \<noteq> GEMINI" "CLAUDE \<noteq> OPENAI"
  by (simp_all add: GEMINI_def OPENAI_def CLAUDE_def)


section \<open>The cost estimate\<close>

text \<open>
  Claim C4. For every provider and tier, and all token and image counts (here any
  numbers, so in particular the non-negative integers), \<open>calculateEstimatedCost\<close> is
  input tokens times the input rate, plus output tokens times the output rate, plus
  images times the image rate, plus premium images times the same image rate, with the
  rates of the provider's and tier's entry of the price table: the elevated entry for
  the tier \<^verbatim>\<open>'pro'\<close>, the base entry for \<^verbatim>\<open>'flash'\<close> and \<^verbatim>\<open>'standard'\<close>. The cost of
  all-zero counts is 0.
\<close>

theorem calculateEstimatedCost_formula:
  "calculateEstimatedCost i out m p GEMINI ModelFlash =
     i * input_rate GEMINI_FLASH + out * output_rate GEMINI_FLASH
       + m * image_rate GEMINI_FLASH + p * image_rate GEMINI_FLASH \<and>
   calculateEstimatedCost i out m p GEMINI ModelStandard =
     i * input_rate GEMINI_FLASH + out * output_rate GEMINI_FLASH
       + m * image_rate GEMINI_FLASH + p * image_rate GEMINI_FLASH \<and>
   calculateEstimatedCost i out m p GEMINI ModelPro =
     i * input_rate GEMINI_PRO + out * output_rate GEMINI_PRO
       + m * image_rate GEMINI_PRO + p * image_rate GEMINI_PRO \<and>
   calculateEstimatedCost i out m p OPENAI ModelFlash =
     i * input_rate OPENAI_GPT3_5 + out * output_rate OPENAI_GPT3_5
       + m * image_rate OPENAI_GPT3_5 + p * image_rate OPENAI_GPT3_5 \<and>
   calculateEstimatedCost i out m p OPENAI ModelStandard =
     i * input_rate OPENAI_GPT3_5 + out * output_rate OPENAI_GPT3_5
       + m * image_rate OPENAI_GPT3_5 + p * image_rate OPENAI_GPT3_5 \<and>
   calculateEstimatedCost i out m p OPENAI ModelPro =
     i * input_rate OPENAI_GPT4 + out * output_rate OPENAI_GPT4
       + m * image_rate OPENAI_GPT4 + p * image_rate OPENAI_GPT4 \<and>
   calculateEstimatedCost i out m p CLAUDE ModelFlash =
     i * input_rate CLAUDE_HAIKU + out * output_rate CLAUDE_HAIKU
       + m * image_rate CLAUDE_HAIKU + p * image_rate CLAUDE_HAIKU \<and>
   calculateEstimatedCost i out m p CLAUDE ModelStandard =
     i * input_rate CLAUDE_HAIKU + out * output_rate CLAUDE_HAIKU
       + m * image_rate CLAUDE_HAIKU + p * image_rate CLAUDE_HAIKU \<and>
   calculateEstimatedCost i out m p CLAUDE ModelPro =
     i * input_rate CLAUDE_SONNET + out * output_rate CLAUDE_SONNET
       + m * image_rate CLAUDE_SONNET + p * image_rate CLAUDE_SONNET \<and>
   calculateEstimatedCost 0 0 0 0 prov modelType = 0"
  by (simp add: calculateEstimatedCost_def Let_def provider_distinct)

text \<open>
  Claim C7. With a provider identifier outside the three supported ones,
  \<open>calculateEstimatedCost\<close> returns (it has no failing branch) the cost at the rates of
  Gemini's base tier, whatever the tier asked for: 0.1 and 0.4 per million input and
  output tokens and 0.0008 per image.
\<close>

theorem calculateEstimatedCost_unknown_provider:
  "prov \<notin> set AIProvider_values \<Longrightarrow>
   calculateEstimatedCost i out m p prov modelType =
     calculateEstimatedCost i out m p GEMINI ModelFlash \<and>
   calculateEstimatedCost i out m p prov modelType =
     i * (0.1 / 1000000) + out * (0.4 / 1000000) + m * 0.0008 + p * 0.0008"
  by (auto simp add: calculateEstimatedCost_def Let_def AIProvider_values_def GEMINI_FLASH_def)

theorem calculateEstimatedCost_unknown_provider_witness:
  "''UNKNOWN'' \<notin> set AIProvider_values \<and>
   calculateEstimatedCost 1000 500 1 0 ''UNKNOWN'' ModelPro = 0.0011"
  using calculateEstimatedCost_unknown_provider [of "''UNKNOWN''" 1000 500 1 0 ModelPro]
  by (simp add: AIProvider_values_def GEMINI_def OPENAI_def CLAUDE_def)

section \<open>The credential store\<close>

lemma getItem_setItem:
  "setItem ls k v = Inr ls' \<Longrightarrow> getItem ls' k = Some v"
  by (auto simp add: setItem_def getItem_def Let_def update_conv' split: if_splits)

lemma getItem_removeItem:
  "getItem (removeItem ls k) k' = (if k' = k then None else getItem ls k')"
  by (simp add: removeItem_def getItem_def delete_conv')

lemma hasApiKey_removeItem:
  "hasApiKey (removeItem ls k) p \<longleftrightarrow> k \<noteq> API_KEY_STORAGE_PREFIX @ p \<and> hasApiKey ls p"
  by (simp add: hasApiKey_def getStoredApiKey_def getItem_removeItem)

text \<open>
  Claim C9. For every provider \<open>p\<close>: once \<open>setStoredApiKey\<close> has stored a non-empty
  secret for \<open>p\<close>, \<open>getStoredApiKey\<close> returns that secret and \<open>hasApiKey\<close> holds;
  storing the empty secret always succeeds, and afterwards \<open>getStoredApiKey\<close> returns
  the empty string and \<open>hasApiKey\<close> fails; with no entry for \<open>p\<close> in the store
  \<open>getStoredApiKey\<close> returns the empty string; and after \<open>clearAllApiKeys\<close>
  \<open>hasApiKey\<close> fails for each of the three supported providers.
\<close>

theorem credential_store_contract:
  "(key \<noteq> [] \<longrightarrow> setStoredApiKey ls p key = Inr ls' \<longrightarrow>
      getStoredApiKey ls' p = key \<and> hasApiKey ls' p) \<and>
   (\<exists>ls''. setStoredApiKey ls p [] = Inr ls'' \<and>
      getStoredApiKey ls'' p = [] \<and> \<not> hasApiKey ls'' p) \<and>
   (getItem ls (API_KEY_STORAGE_PREFIX @ p) = None \<longrightarrow> getStoredApiKey ls p = []) \<and>
   (\<forall>q \<in> set AIProvider_values. \<not> hasApiKey (clearAllApiKeys ls) q)"
proof (intro conjI impI)
  assume "key \<noteq> []" and "setStoredApiKey ls p key = Inr ls'"
  then have "getItem ls' (API_KEY_STORAGE_PREFIX @ p) = Some key"
    by (simp add: setStoredApiKey_def getItem_setItem)
  with \<open>key \<noteq> []\<close> show "getStoredApiKey ls' p = key" and "hasApiKey ls' p"
    by (simp_all add: hasApiKey_def getStoredApiKey_def)
next
  show "\<exists>ls''. setStoredApiKey ls p [] = Inr ls'' \<and>
      getStoredApiKey ls'' p = [] \<and> \<not> hasApiKey ls'' p"
    by (simp add: setStoredApiKey_def hasApiKey_def getStoredApiKey_def getItem_removeItem)
next
  assume "getItem ls (API_KEY_STORAGE_PREFIX @ p) = None"
  then show "getStoredApiKey ls p = []"
    by (simp add: getStoredApiKey_def)
next
  show "\<forall>q \<in> set AIProvider_values. \<not> hasApiKey (clearAllApiKeys ls) q"
    by (simp add: clearAllApiKeys_def AIProvider_values_def hasApiKey_removeItem)
qed

theorem credential_store_contract_witness:
  "setStoredApiKey emptyStore GEMINI ''test-gemini-key''
     = Inr (emptyStore\<lparr>items := [(API_KEY_STORAGE_PREFIX @ GEMINI, ''test-gemini-key'')]\<rparr>) \<and>
   getStoredApiKey (emptyStore\<lparr>items := [(API_KEY_STORAGE_PREFIX @ GEMINI, ''test-gemini-key'')]\<rparr>) GEMINI
     = ''test-gemini-key'' \<and>
   hasApiKey (emptyStore\<lparr>items := [(API_KEY_STORAGE_PREFIX @ GEMINI, ''test-gemini-key'')]\<rparr>) GEMINI \<and>
   getItem emptyStore (API_KEY_STORAGE_PREFIX @ OPENAI) = None \<and>
   getStoredApiKey emptyStore OPENAI = [] \<and>
   \<not> hasApiKey (clearAllApiKeys (emptyStore\<lparr>items := [(API_KEY_STORAGE_PREFIX @ GEMINI, ''test-gemini-key'')]\<rparr>)) GEMINI"
proof -
  let ?ls' = "emptyStore\<lparr>items := [(API_KEY_STORAGE_PREFIX @ GEMINI, ''test-gemini-key'')]\<rparr>"
  have stored: "setStoredApiKey emptyStore GEMINI ''test-gemini-key'' = Inr ?ls'"
    by (simp add: setStoredApiKey_def setItem_def emptyStore_def stored_size_def Let_def
          API_KEY_STORAGE_PREFIX_def GEMINI_def)
  have none: "getItem emptyStore (API_KEY_STORAGE_PREFIX @ OPENAI) = None"
    by (simp add: getItem_def emptyStore_def)
  have mem: "GEMINI \<in> set AIProvider_values"
    by (simp add: AIProvider_values_def)
  from credential_store_contract [of "''test-gemini-key''" emptyStore GEMINI ?ls'] stored
  have a: "getStoredApiKey ?ls' GEMINI = ''test-gemini-key'' \<and> hasApiKey ?ls' GEMINI"
    by simp
  from credential_store_contract [of "''test-gemini-key''" emptyStore OPENAI ?ls'] none
  have b: "getStoredApiKey emptyStore OPENAI = []"
    by simp
  from credential_store_contract [of "''test-gemini-key''" ?ls' GEMINI ?ls'] mem
  have c: "\<not> hasApiKey (clearAllApiKeys ?ls') GEMINI"
    by blast
  from stored none a b c show ?thesis by simp
qed

section \<open>Images\<close>

text \<open>
  Claim C5. For every prompt, style and quality (and whatever the runtime, the upstream
  and the store), \<open>generateImage\<close> with the provider Claude makes no network call and
  returns, as a result and not as an error, the data \<^verbatim>\<open>undefined\<close> with a usage of 0
  input tokens and 0 output tokens.
\<close>

theorem generateImage_claude:
  "generateImage rt up ls prompt style CLAUDE quality =
     ([], Inr \<lparr>data = JUndefined,
               usage = \<lparr>inputTokens = JNum 0, outputTokens = JNum 0,
                         isPremium = None, provider = CLAUDE\<rparr>\<rparr>)"
  by (simp add: generateImage_def claudeGenerateImage_def provider_distinct)


section \<open>Successful calls\<close>

text \<open>What a successful call of each adapter went through, and the envelope it returns.\<close>

lemma gameStateWithDefaults_Inr:
  "gameStateWithDefaults parsed = Inr d \<longleftrightarrow> \<not> nullish parsed \<and> d = withStoryDefaults parsed"
  by (auto simp add: gameStateWithDefaults_def get_prop_def withStoryDefaults_def storyDefaults_def
        or_else_def)

lemma withStoryDefaults_field:
  "(field, dflt) \<in> set storyDefaults \<Longrightarrow>
   truthy (own_prop (withStoryDefaults parsed) field) \<and>
   own_prop (withStoryDefaults parsed) field =
     (if truthy (own_prop parsed field) then own_prop parsed field else dflt)"
  by (auto simp add: withStoryDefaults_def storyDefaults_def)

lemma geminiGenerateStory_Inr:
  "geminiGenerateStory rt up ls prompt = (calls, Inr r) \<Longrightarrow>
   \<exists>response.
     genai up (geminiStoryCall ls prompt) = Inr response \<and>
     JSON_parse rt (ToString rt (or_else (own_prop response ''text'') (JStr ''{}''))) = Inr (data r)"
  by (auto simp add: geminiGenerateStory_def Let_def bindE_Inr_iff get_prop_def split: if_splits)

lemma openaiGenerateStory_Inr:
  "openaiGenerateStory rt up ls prompt = (calls, Inr r) \<Longrightarrow>
   \<exists>response body choices choice message content parsed.
     fetch up (openaiStoryCall ls prompt) = Inr response \<and> ok response \<and>
     body_json response = Inr body \<and>
     get_prop body ''choices'' = Inr choices \<and> get_index0 choices = Inr choice \<and>
     get_prop choice ''message'' = Inr message \<and> get_prop message ''content'' = Inr content \<and>
     JSON_parse rt (ToString rt content) = Inr parsed \<and> \<not> nullish parsed \<and>
     data r = withStoryDefaults parsed"
  by (auto simp add: openaiGenerateStory_def Let_def bindE_Inr_iff catchE_Inr_iff
        gameStateWithDefaults_Inr split: if_splits)

lemma claudeGenerateStory_Inr:
  "claudeGenerateStory rt up ls prompt = (calls, Inr r) \<Longrightarrow>
   \<exists>response body blocks block txt parsed.
     fetch up (claudeStoryCall ls prompt) = Inr response \<and> ok response \<and>
     body_json response = Inr body \<and>
     get_prop body ''content'' = Inr blocks \<and> get_index0 blocks = Inr block \<and>
     get_prop block ''text'' = Inr txt \<and>
     JSON_parse rt (ToString rt txt) = Inr parsed \<and> \<not> nullish parsed \<and>
     data r = withStoryDefaults parsed"
  by (auto simp add: claudeGenerateStory_def Let_def bindE_Inr_iff catchE_Inr_iff
        gameStateWithDefaults_Inr split: if_splits)

lemma geminiGenerateStory_usage:
  "geminiGenerateStory rt up ls prompt = (calls, Inr r) \<Longrightarrow> provider (usage r) = GEMINI"
  by (auto simp add: geminiGenerateStory_def Let_def bindE_Inr_iff)

lemma openaiGenerateStory_usage:
  "openaiGenerateStory rt up ls prompt = (calls, Inr r) \<Longrightarrow> provider (usage r) = OPENAI"
  by (auto simp add: openaiGenerateStory_def Let_def bindE_Inr_iff split: if_splits)

lemma claudeGenerateStory_usage:
  "claudeGenerateStory rt up ls prompt = (calls, Inr r) \<Longrightarrow> provider (usage r) = CLAUDE"
  by (auto simp add: claudeGenerateStory_def Let_def bindE_Inr_iff split: if_splits)

lemma geminiGenerateImage_usage:
  "geminiGenerateImage rt up ls prompt style quality = (calls, Inr r) \<Longrightarrow>
   provider (usage r) = GEMINI \<and> isPremium (usage r) = Some False"
  by (auto simp add: geminiGenerateImage_def Let_def bindE_Inr_iff)

lemma openaiGenerateImage_usage:
  "openaiGenerateImage rt up ls prompt style quality = (calls, Inr r) \<Longrightarrow>
   provider (usage r) = OPENAI \<and> isPremium (usage r) = Some True"
  by (auto simp add: openaiGenerateImage_def Let_def bindE_Inr_iff split: if_splits)

lemma claudeGenerateImage_usage:
  "claudeGenerateImage = (calls, Inr r) \<Longrightarrow>
   provider (usage r) = CLAUDE \<and> isPremium (usage r) = None"
  by (auto simp add: claudeGenerateImage_def)

lemma geminiChat_usage:
  "geminiChat rt up ls message gameContext = (calls, Inr r) \<Longrightarrow> provider (usage r) = GEMINI"
  by (auto simp add: geminiChat_def Let_def bindE_Inr_iff split: sum.splits)

lemma openaiChat_usage:
  "openaiChat rt up ls message gameContext = (calls, Inr r) \<Longrightarrow> provider (usage r) = OPENAI"
  by (auto simp add: openaiChat_def Let_def bindE_Inr_iff split: sum.splits if_splits)

lemma claudeChat_usage:
  "claudeChat rt up ls message gameContext = (calls, Inr r) \<Longrightarrow> provider (usage r) = CLAUDE"
  by (auto simp add: claudeChat_def Let_def bindE_Inr_iff split: sum.splits if_splits)

text \<open>The facade succeeds exactly when the adapter it selects does, with the same result.\<close>

lemma generateStoryBeat_Inr:
  "generateStoryBeat rt up ls prompt prov = (calls, Inr r) \<longleftrightarrow>
     (prov = GEMINI \<and> geminiGenerateStory rt up ls prompt = (calls, Inr r)) \<or>
     (prov = OPENAI \<and> openaiGenerateStory rt up ls prompt = (calls, Inr r)) \<or>
     (prov = CLAUDE \<and> claudeGenerateStory rt up ls prompt = (calls, Inr r))"
  by (auto simp add: generateStoryBeat_def catchE_Inr_iff provider_distinct split: prod.splits)

lemma generateImage_Inr:
  "generateImage rt up ls prompt style prov quality = (calls, Inr r) \<longleftrightarrow>
     (prov = GEMINI \<and> geminiGenerateImage rt up ls prompt style quality = (calls, Inr r)) \<or>
     (prov = OPENAI \<and> openaiGenerateImage rt up ls prompt style quality = (calls, Inr r)) \<or>
     (prov = CLAUDE \<and> claudeGenerateImage = (calls, Inr r))"
  by (auto simp add: generateImage_def claudeGenerateImage_def catchE_Inr_iff provider_distinct
        split: prod.splits)

lemma getChatResponse_Inr:
  "getChatResponse rt up ls message gameContext prov = (calls, Inr r) \<longleftrightarrow>
     (prov = GEMINI \<and> geminiChat rt up ls message gameContext = (calls, Inr r)) \<or>
     (prov = OPENAI \<and> openaiChat rt up ls message gameContext = (calls, Inr r)) \<or>
     (prov = CLAUDE \<and> claudeChat rt up ls message gameContext = (calls, Inr r))"
  by (auto simp add: getChatResponse_def catchE_Inr_iff provider_distinct split: prod.splits)

section \<open>Runs on the concrete surroundings\<close>

lemmas js_defs =
  get_prop_def opt_prop_def get_index0_def opt_index0_def or_else_def mkError_def
  mkTypeError_def join_def Let_def

lemmas fixture_defs =
  rt0_def upOK_def upUnauthorized_def upRejectAuth_def emptyStore_def okResponse_def
  openaiCompletionBody_def openaiImageBody_def claudeMessageBody_def geminiContentReply_def
  geminiChatReply_def
  partialReply_def partialReplyText_def networkError_def getProviderKey_def
  getStoredApiKey_def getItem_def GEMINI_def OPENAI_def CLAUDE_def

lemma openai_story_run:
  "generateStoryBeat rt0 upOK emptyStore ''test prompt'' OPENAI =
     ([openaiStoryCall emptyStore ''test prompt''],
      Inr \<lparr>data = JObj [(''storyText'', JStr ''X''),
                         (''choices'', JArr [JStr ''Continue'']),
                         (''inventory'', JArr []),
                         (''currentQuest'', JStr ''Unknown quest''),
                         (''visualPrompt'', JStr ''A mysterious scene''),
                         (''worldStyle'', JStr ''fantasy''),
                         (''genre'', JStr ''Fantasy'')],
             usage = \<lparr>inputTokens = JNum 100, outputTokens = JNum 150,
                       isPremium = None, provider = OPENAI\<rparr>\<rparr>)"
  by (simp add: generateStoryBeat_def openaiGenerateStory_def openaiStoryCall_def
        gameStateWithDefaults_def js_defs fixture_defs)

lemma claude_story_run:
  "generateStoryBeat rt0 upOK emptyStore ''test prompt'' CLAUDE =
     ([claudeStoryCall emptyStore ''test prompt''],
      Inr \<lparr>data = JObj [(''storyText'', JStr ''X''),
                         (''choices'', JArr [JStr ''Continue'']),
                         (''inventory'', JArr []),
                         (''currentQuest'', JStr ''Unknown quest''),
                         (''visualPrompt'', JStr ''A mysterious scene''),
                         (''worldStyle'', JStr ''fantasy''),
                         (''genre'', JStr ''Fantasy'')],
             usage = \<lparr>inputTokens = JNum 100, outputTokens = JNum 150,
                       isPremium = None, provider = CLAUDE\<rparr>\<rparr>)"
  by (simp add: generateStoryBeat_def claudeGenerateStory_def claudeStoryCall_def
        gameStateWithDefaults_def js_defs fixture_defs)

lemma gemini_story_run:
  "generateStoryBeat rt0 upOK emptyStore ''test prompt'' GEMINI =
     ([geminiStoryCall emptyStore ''test prompt''],
      Inr \<lparr>data = JObj [],
             usage = \<lparr>inputTokens = JNum 100, outputTokens = JNum 150,
                       isPremium = None, provider = GEMINI\<rparr>\<rparr>)"
  by (simp add: generateStoryBeat_def geminiGenerateStory_def geminiStoryCall_def js_defs
        fixture_defs)

lemma openai_image_run:
  "generateImage rt0 upOK emptyStore ''A scene'' ''fantasy'' OPENAI quality =
     ([openaiImageCall emptyStore ''A scene'' ''fantasy'' quality],
      Inr \<lparr>data = JStr ''https://example.com/image.png'',
             usage = \<lparr>inputTokens = JNum 0, outputTokens = JNum 0,
                       isPremium = Some True, provider = OPENAI\<rparr>\<rparr>)"
  by (simp add: generateImage_def openaiGenerateImage_def openaiImageCall_def js_defs
        fixture_defs)

lemma gemini_image_run:
  "generateImage rt0 upOK emptyStore ''A scene'' ''fantasy'' GEMINI quality =
     ([geminiImageCall emptyStore ''A scene'' ''fantasy'' quality],
      Inr \<lparr>data = JStr ''data:image/png;base64,iVBORw0KGgo='',
             usage = \<lparr>inputTokens = JNum 100, outputTokens = JNum 150,
                       isPremium = Some False, provider = GEMINI\<rparr>\<rparr>)"
  by (simp add: generateImage_def geminiGenerateImage_def geminiImageCall_def
        find_inline_image_def js_defs fixture_defs)


lemma gemini_chat_run:
  "getChatResponse rt0 upOK emptyStore ''hello'' contextWithoutInventory GEMINI =
     ([geminiChatCall emptyStore
         (personaText 12 ''High Fantasy'' ''Find the lost artifact'' []) ''hello''],
      Inr \<lparr>data = JStr ''Hello, brave adventurer!'',
             usage = \<lparr>inputTokens = JNum 50, outputTokens = JNum 25,
                       isPremium = None, provider = GEMINI\<rparr>\<rparr>)"
  by (simp add: getChatResponse_def geminiChat_def geminiChatCall_def chatPersona_def
        contextWithoutInventory_def js_defs fixture_defs)

section \<open>Story beats\<close>

text \<open>
  Claim C1, as amended. A successful \<open>generateStoryBeat\<close> with OpenAI or Claude
  returns a state built from the JSON value parsed out of the upstream reply (the
  content of OpenAI's first choice, the text of Claude's first block): each of the seven
  fields \<^verbatim>\<open>storyText\<close>, \<^verbatim>\<open>choices\<close>, \<^verbatim>\<open>inventory\<close>, \<^verbatim>\<open>currentQuest\<close>,
  \<^verbatim>\<open>visualPrompt\<close>, \<^verbatim>\<open>worldStyle\<close>, \<^verbatim>\<open>genre\<close> is populated, with the reply's value
  when it has a truthy one and else, independently of the other fields, with the default
  of the specification's table. With Gemini no default is substituted: the state is the
  value parsed from the reply's text (from \<^verbatim>\<open>{}\<close> when the text is empty), as it is.
\<close>

theorem story_fields_defaulted:
  assumes "generateStoryBeat rt up ls prompt prov = (calls, Inr r)"
  shows "(prov = OPENAI \<or> prov = CLAUDE \<longrightarrow>
           (\<exists>response body content parsed.
              fetch up (if prov = OPENAI then openaiStoryCall ls prompt
                        else claudeStoryCall ls prompt) = Inr response \<and>
              body_json response = Inr body \<and>
              (if prov = OPENAI
               then bindE (get_prop body ''choices'') (\<lambda>choices.
                    bindE (get_index0 choices) (\<lambda>choice.
                    bindE (get_prop choice ''message'') (\<lambda>message.
                    get_prop message ''content'')))
               else bindE (get_prop body ''content'') (\<lambda>blocks.
                    bindE (get_index0 blocks) (\<lambda>block.
                    get_prop block ''text''))) = Inr content \<and>
              JSON_parse rt (ToString rt content) = Inr parsed \<and>
              (\<forall>(field, dflt) \<in> set storyDefaults.
                 truthy (own_prop (data r) field) \<and>
                 own_prop (data r) field =
                   (if truthy (own_prop parsed field) then own_prop parsed field else dflt)))) \<and>
         (prov = GEMINI \<longrightarrow>
           (\<exists>response.
              genai up (geminiStoryCall ls prompt) = Inr response \<and>
              JSON_parse rt (ToString rt (or_else (own_prop response ''text'') (JStr ''{}'')))
                = Inr (data r)))"
proof (intro conjI impI)
  assume p: "prov = OPENAI \<or> prov = CLAUDE"
  show "\<exists>response body content parsed.
              fetch up (if prov = OPENAI then openaiStoryCall ls prompt
                        else claudeStoryCall ls prompt) = Inr response \<and>
              body_json response = Inr body \<and>
              (if prov = OPENAI
               then bindE (get_prop body ''choices'') (\<lambda>choices.
                    bindE (get_index0 choices) (\<lambda>choice.
                    bindE (get_prop choice ''message'') (\<lambda>message.
                    get_prop message ''content'')))
               else bindE (get_prop body ''content'') (\<lambda>blocks.
                    bindE (get_index0 blocks) (\<lambda>block.
                    get_prop block ''text''))) = Inr content \<and>
              JSON_parse rt (ToString rt content) = Inr parsed \<and>
              (\<forall>(field, dflt) \<in> set storyDefaults.
                 truthy (own_prop (data r) field) \<and>
                 own_prop (data r) field =
                   (if truthy (own_prop parsed field) then own_prop parsed field else dflt))"
  proof (cases "prov = OPENAI")
    case True
    with assms have "openaiGenerateStory rt up ls prompt = (calls, Inr r)"
      by (simp add: generateStoryBeat_Inr provider_distinct)
    from openaiGenerateStory_Inr [OF this] obtain resp bdy chs ch msg cont prs
      where "fetch up (openaiStoryCall ls prompt) = Inr resp"
        and "body_json resp = Inr bdy"
        and "get_prop bdy ''choices'' = Inr chs" and "get_index0 chs = Inr ch"
        and "get_prop ch ''message'' = Inr msg"
        and "get_prop msg ''content'' = Inr cont"
        and "JSON_parse rt (ToString rt cont) = Inr prs"
        and "data r = withStoryDefaults prs"
      by blast
    with True show ?thesis
      using withStoryDefaults_field [of _ _ prs]
      by (intro exI [of _ resp] exI [of _ bdy] exI [of _ cont] exI [of _ prs]) auto
  next
    case False
    with p have c: "prov = CLAUDE" by simp
    with assms have "claudeGenerateStory rt up ls prompt = (calls, Inr r)"
      by (simp add: generateStoryBeat_Inr provider_distinct)
    from claudeGenerateStory_Inr [OF this] obtain resp bdy blks blk tx prs
      where "fetch up (claudeStoryCall ls prompt) = Inr resp"
        and "body_json resp = Inr bdy"
        and "get_prop bdy ''content'' = Inr blks" and "get_index0 blks = Inr blk"
        and "get_prop blk ''text'' = Inr tx"
        and "JSON_parse rt (ToString rt tx) = Inr prs"
        and "data r = withStoryDefaults prs"
      by blast
    with c show ?thesis
      using withStoryDefaults_field [of _ _ prs]
      by (intro exI [of _ resp] exI [of _ bdy] exI [of _ tx] exI [of _ prs])
         (auto simp add: provider_distinct)
  qed
next
  assume "prov = GEMINI"
  with assms have "geminiGenerateStory rt up ls prompt = (calls, Inr r)"
    by (simp add: generateStoryBeat_Inr provider_distinct)
  then show "\<exists>response.
              genai up (geminiStoryCall ls prompt) = Inr response \<and>
              JSON_parse rt (ToString rt (or_else (own_prop response ''text'') (JStr ''{}'')))
                = Inr (data r)"
    by (rule geminiGenerateStory_Inr)
qed

theorem story_fields_defaulted_witness:
  "generateStoryBeat rt0 upOK emptyStore ''test prompt'' OPENAI =
     ([openaiStoryCall emptyStore ''test prompt''],
      Inr \<lparr>data = JObj [(''storyText'', JStr ''X''),
                         (''choices'', JArr [JStr ''Continue'']),
                         (''inventory'', JArr []),
                         (''currentQuest'', JStr ''Unknown quest''),
                         (''visualPrompt'', JStr ''A mysterious scene''),
                         (''worldStyle'', JStr ''fantasy''),
                         (''genre'', JStr ''Fantasy'')],
             usage = \<lparr>inputTokens = JNum 100, outputTokens = JNum 150,
                       isPremium = None, provider = OPENAI\<rparr>\<rparr>) \<and>
   truthy (own_prop (JObj [(''storyText'', JStr ''X''),
                         (''choices'', JArr [JStr ''Continue'']),
                         (''inventory'', JArr []),
                         (''currentQuest'', JStr ''Unknown quest''),
                         (''visualPrompt'', JStr ''A mysterious scene''),
                         (''worldStyle'', JStr ''fantasy''),
                         (''genre'', JStr ''Fantasy'')]) ''genre'')"
proof -
  define r0 where "r0 =
      \<lparr>data = JObj [(''storyText'', JStr ''X''),
                         (''choices'', JArr [JStr ''Continue'']),
                         (''inventory'', JArr []),
                         (''currentQuest'', JStr ''Unknown quest''),
                         (''visualPrompt'', JStr ''A mysterious scene''),
                         (''worldStyle'', JStr ''fantasy''),
                         (''genre'', JStr ''Fantasy'')],
             usage = \<lparr>inputTokens = JNum 100, outputTokens = JNum 150,
                       isPremium = None, provider = OPENAI\<rparr>\<rparr>"
  have run: "generateStoryBeat rt0 upOK emptyStore ''test prompt'' OPENAI =
     ([openaiStoryCall emptyStore ''test prompt''], Inr r0)"
    unfolding r0_def by (rule openai_story_run)
  from story_fields_defaulted [OF run] obtain prs where
    "\<forall>(field, dflt) \<in> set storyDefaults.
       truthy (own_prop (data r0) field) \<and>
       own_prop (data r0) field =
         (if truthy (own_prop prs field) then own_prop prs field else dflt)"
    by blast
  moreover have "(''genre'', JStr ''Fantasy'') \<in> set storyDefaults"
    by (simp add: storyDefaults_def)
  ultimately have "truthy (own_prop (data r0) ''genre'')"
    by fastforce
  with run show ?thesis
    unfolding r0_def by simp
qed

text \<open>
  Claim C1 as stated fails for Gemini: a reply whose text is the empty object is a
  successful call, and the state it returns has none of the seven fields.
\<close>

theorem story_fields_gemini_counterexample:
  "generateStoryBeat rt0 upOK emptyStore ''test prompt'' GEMINI =
     ([geminiStoryCall emptyStore ''test prompt''],
      Inr \<lparr>data = JObj [],
             usage = \<lparr>inputTokens = JNum 100, outputTokens = JNum 150,
                       isPremium = None, provider = GEMINI\<rparr>\<rparr>) \<and>
   own_prop (JObj []) ''storyText'' = JUndefined \<and>
   own_prop (JObj []) ''choices'' = JUndefined \<and>
   own_prop (JObj []) ''inventory'' = JUndefined \<and>
   own_prop (JObj []) ''currentQuest'' = JUndefined \<and>
   own_prop (JObj []) ''visualPrompt'' = JUndefined \<and>
   own_prop (JObj []) ''worldStyle'' = JUndefined \<and>
   own_prop (JObj []) ''genre'' = JUndefined"
  using gemini_story_run by simp


section \<open>The usage envelope\<close>

text \<open>
  Claim C10. For each of the three capabilities, the usage envelope of a successful
  result carries the provider identifier the facade was called with. (A call with an
  unsupported identifier never succeeds.)
\<close>

theorem usage_provider_is_requested:
  "(generateStoryBeat rt up ls prompt prov = (calls, Inr r) \<longrightarrow> provider (usage r) = prov) \<and>
   (generateImage rt up ls prompt style prov quality = (calls, Inr r) \<longrightarrow> provider (usage r) = prov) \<and>
   (getChatResponse rt up ls message gameContext prov = (calls, Inr r) \<longrightarrow> provider (usage r) = prov)"
  unfolding generateStoryBeat_Inr generateImage_Inr getChatResponse_Inr
  using geminiGenerateStory_usage [of rt up ls prompt calls r]
        openaiGenerateStory_usage [of rt up ls prompt calls r]
        claudeGenerateStory_usage [of rt up ls prompt calls r]
        geminiGenerateImage_usage [of rt up ls prompt style quality calls r]
        openaiGenerateImage_usage [of rt up ls prompt style quality calls r]
        claudeGenerateImage_usage [of calls r]
        geminiChat_usage [of rt up ls message gameContext calls r]
        openaiChat_usage [of rt up ls message gameContext calls r]
        claudeChat_usage [of rt up ls message gameContext calls r]
  by auto

theorem usage_provider_is_requested_witness:
  "generateStoryBeat rt0 upOK emptyStore ''test prompt'' CLAUDE =
     ([claudeStoryCall emptyStore ''test prompt''],
      Inr \<lparr>data = withStoryDefaults partialReply,
             usage = \<lparr>inputTokens = JNum 100, outputTokens = JNum 150,
                       isPremium = None, provider = CLAUDE\<rparr>\<rparr>) \<and>
   provider \<lparr>inputTokens = JNum 100, outputTokens = JNum 150,
             isPremium = None, provider = CLAUDE\<rparr> = CLAUDE \<and>
   generateImage rt0 upOK emptyStore ''A scene'' ''fantasy'' GEMINI QualityFast =
     ([geminiImageCall emptyStore ''A scene'' ''fantasy'' QualityFast],
      Inr \<lparr>data = JStr ''data:image/png;base64,iVBORw0KGgo='',
             usage = \<lparr>inputTokens = JNum 100, outputTokens = JNum 150,
                       isPremium = Some False, provider = GEMINI\<rparr>\<rparr>) \<and>
   provider \<lparr>inputTokens = JNum 100, outputTokens = JNum 150,
             isPremium = Some False, provider = GEMINI\<rparr> = GEMINI \<and>
   getChatResponse rt0 upOK emptyStore ''hello'' contextWithoutInventory GEMINI =
     ([geminiChatCall emptyStore
         (personaText 12 ''High Fantasy'' ''Find the lost artifact'' []) ''hello''],
      Inr \<lparr>data = JStr ''Hello, brave adventurer!'',
             usage = \<lparr>inputTokens = JNum 50, outputTokens = JNum 25,
                       isPremium = None, provider = GEMINI\<rparr>\<rparr>) \<and>
   provider \<lparr>inputTokens = JNum 50, outputTokens = JNum 25,
             isPremium = None, provider = GEMINI\<rparr> = GEMINI"
proof -
  have story: "generateStoryBeat rt0 upOK emptyStore ''test prompt'' CLAUDE =
     ([claudeStoryCall emptyStore ''test prompt''],
      Inr \<lparr>data = withStoryDefaults partialReply,
             usage = \<lparr>inputTokens = JNum 100, outputTokens = JNum 150,
                       isPremium = None, provider = CLAUDE\<rparr>\<rparr>)"
    by (simp add: claude_story_run withStoryDefaults_def storyDefaults_def partialReply_def)
  note image = gemini_image_run [of QualityFast]
  note chat = gemini_chat_run
  from usage_provider_is_requested
         [where rt = rt0 and up = upOK and ls = emptyStore and prompt = "''test prompt''"
            and prov = CLAUDE] story
  have a: "provider \<lparr>inputTokens = JNum 100, outputTokens = JNum 150,
             isPremium = None, provider = CLAUDE\<rparr> = CLAUDE"
    by simp
  from usage_provider_is_requested
         [where rt = rt0 and up = upOK and ls = emptyStore and prompt = "''A scene''"
            and style = "''fantasy''" and prov = GEMINI and quality = QualityFast] image
  have b: "provider \<lparr>inputTokens = JNum 100, outputTokens = JNum 150,
             isPremium = Some False, provider = GEMINI\<rparr> = GEMINI"
    by simp
  from usage_provider_is_requested
         [where rt = rt0 and up = upOK and ls = emptyStore and message = "''hello''"
            and gameContext = contextWithoutInventory and prov = GEMINI] chat
  have c: "provider \<lparr>inputTokens = JNum 50, outputTokens = JNum 25,
             isPremium = None, provider = GEMINI\<rparr> = GEMINI"
    by simp
  from story image chat a b c show ?thesis by simp
qed

text \<open>
  Claim C8, as amended. The \<^verbatim>\<open>isPremium\<close> flag of a successful \<open>generateImage\<close>
  depends on the provider alone, not on the quality asked for: it is true with OpenAI,
  false with Gemini, and not set with Claude.
\<close>

theorem isPremium_by_provider:
  "generateImage rt up ls prompt style prov quality = (calls, Inr r) \<Longrightarrow>
   isPremium (usage r) =
     (if prov = OPENAI then Some True else if prov = GEMINI then Some False else None)"
  unfolding generateImage_Inr
  using geminiGenerateImage_usage [of rt up ls prompt style quality calls r]
        openaiGenerateImage_usage [of rt up ls prompt style quality calls r]
        claudeGenerateImage_usage [of calls r]
  by (auto simp add: provider_distinct)

theorem isPremium_by_provider_witness:
  "generateImage rt0 upOK emptyStore ''A scene'' ''fantasy'' GEMINI QualityStandard =
     ([geminiImageCall emptyStore ''A scene'' ''fantasy'' QualityStandard],
      Inr \<lparr>data = JStr ''data:image/png;base64,iVBORw0KGgo='',
             usage = \<lparr>inputTokens = JNum 100, outputTokens = JNum 150,
                       isPremium = Some False, provider = GEMINI\<rparr>\<rparr>) \<and>
   isPremium \<lparr>inputTokens = JNum 100, outputTokens = JNum 150,
              isPremium = Some False, provider = GEMINI\<rparr> = Some False"
  using isPremium_by_provider [OF gemini_image_run [of QualityStandard]]
        gemini_image_run [of QualityStandard]
  by simp

text \<open>
  Claim C8 as stated fails for OpenAI: an image of standard quality, and one of the
  cheaper fast quality, both come back with \<^verbatim>\<open>isPremium\<close> true.
\<close>

theorem isPremium_openai_counterexample:
  "generateImage rt0 upOK emptyStore ''A scene'' ''fantasy'' OPENAI QualityStandard =
     ([openaiImageCall emptyStore ''A scene'' ''fantasy'' QualityStandard],
      Inr \<lparr>data = JStr ''https://example.com/image.png'',
             usage = \<lparr>inputTokens = JNum 0, outputTokens = JNum 0,
                       isPremium = Some True, provider = OPENAI\<rparr>\<rparr>) \<and>
   generateImage rt0 upOK emptyStore ''A scene'' ''fantasy'' OPENAI QualityFast =
     ([openaiImageCall emptyStore ''A scene'' ''fantasy'' QualityFast],
      Inr \<lparr>data = JStr ''https://example.com/image.png'',
             usage = \<lparr>inputTokens = JNum 0, outputTokens = JNum 0,
                       isPremium = Some True, provider = OPENAI\<rparr>\<rparr>)"
  using openai_image_run [of QualityStandard] openai_image_run [of QualityFast] by simp


section \<open>Chat with an undefined inventory\<close>













section \<open>Failed story calls\<close>

lemma generateStoryBeat_Inl:
  "geminiGenerateStory rt up ls prompt = (calls, Inl e) \<Longrightarrow>
     generateStoryBeat rt up ls prompt GEMINI = (calls, Inl (handleGeminiError e))"
  "openaiGenerateStory rt up ls prompt = (calls, Inl e) \<Longrightarrow>
     generateStoryBeat rt up ls prompt OPENAI = (calls, Inl (handleOpenAIError e))"
  "claudeGenerateStory rt up ls prompt = (calls, Inl e) \<Longrightarrow>
     generateStoryBeat rt up ls prompt CLAUDE = (calls, Inl (handleClaudeError e))"
  by (simp_all add: generateStoryBeat_def handleProviderError_def provider_distinct)

lemmas string_defs = toLowerCase_def lower_char_def str_includes_def sublist_code

lemma gemini_story_rejected:
  "geminiGenerateStory rt0 upRejectAuth emptyStore ''test prompt'' =
     ([geminiStoryCall emptyStore ''test prompt''],
      Inl (JObj [(''code'', JNum 403), (''message'', JStr ''Forbidden'')]))"
  by (simp add: geminiGenerateStory_def geminiStoryCall_def js_defs fixture_defs)

lemma openai_story_rejected:
  "openaiGenerateStory rt0 upRejectAuth emptyStore ''test prompt'' =
     ([openaiStoryCall emptyStore ''test prompt''],
      Inl (JObj [(''status'', JNum 401), (''message'', JStr ''Unauthorized'')]))"
  by (simp add: openaiGenerateStory_def js_defs fixture_defs)

lemma claude_story_unauthorized:
  "claudeGenerateStory rt0 upUnauthorized emptyStore ''test prompt'' =
     ([claudeStoryCall emptyStore ''test prompt''],
      Inl (mkError ''Claude API error: Unauthorized''))"
  by (simp add: claudeGenerateStory_def Let_def upUnauthorized_def)

lemma openai_story_unauthorized:
  "openaiGenerateStory rt0 upUnauthorized emptyStore ''test prompt'' =
     ([openaiStoryCall emptyStore ''test prompt''],
      Inl (mkError ''OpenAI API error: Unauthorized''))"
  by (simp add: openaiGenerateStory_def Let_def upUnauthorized_def)

lemma gemini_story_unauthorized:
  "geminiGenerateStory rt0 upUnauthorized emptyStore ''test prompt'' =
     ([geminiStoryCall emptyStore ''test prompt''],
      Inl (JObj [(''code'', JNum 401), (''message'', JStr ''Unauthorized'')]))"
  by (simp add: geminiGenerateStory_def geminiStoryCall_def js_defs fixture_defs)

text \<open>
  Claim C2, as amended. When the adapter of a \<open>generateStoryBeat\<close> call fails with
  an error, the facade classifies that error by the rule of the provider. With Gemini
  (for an error whose message, its own or that of its \<^verbatim>\<open>error\<close> member, is a string
  or absent) it raises API_KEY_ERROR when the error's code is 403 or 404 or its message,
  in lower case, contains "permission", "not found" or "api_key_invalid". With OpenAI
  and Claude it raises API_KEY_ERROR when the error's \<^verbatim>\<open>status\<close> is 401. In every
  other case it raises the adapter's error again, unchanged.
\<close>

theorem story_error_classification:
  "(geminiGenerateStory rt up ls prompt = (calls, Inl e) \<longrightarrow>
      or_else (or_else (opt_prop e ''message'') (opt_prop (opt_prop e ''error'') ''message''))
              (JStr []) = JStr m \<longrightarrow>
      generateStoryBeat rt up ls prompt GEMINI =
        (calls,
         Inl (if or_else (opt_prop e ''code'') (opt_prop (opt_prop e ''error'') ''code'') = JNum 403 \<or>
                 or_else (opt_prop e ''code'') (opt_prop (opt_prop e ''error'') ''code'') = JNum 404 \<or>
                 str_includes (toLowerCase m) ''permission'' \<or>
                 str_includes (toLowerCase m) ''not found'' \<or>
                 str_includes (toLowerCase m) ''api_key_invalid''
              then mkError ''API_KEY_ERROR'' else e))) \<and>
   (openaiGenerateStory rt up ls prompt = (calls, Inl e) \<longrightarrow>
      generateStoryBeat rt up ls prompt OPENAI =
        (calls, Inl (if opt_prop e ''status'' = JNum 401 then mkError ''API_KEY_ERROR'' else e))) \<and>
   (claudeGenerateStory rt up ls prompt = (calls, Inl e) \<longrightarrow>
      generateStoryBeat rt up ls prompt CLAUDE =
        (calls, Inl (if opt_prop e ''status'' = JNum 401 then mkError ''API_KEY_ERROR'' else e)))"
  by (simp add: generateStoryBeat_Inl handleGeminiError_def handleOpenAIError_def
        handleClaudeError_def Let_def)

theorem story_error_classification_witness:
  "geminiGenerateStory rt0 upRejectAuth emptyStore ''test prompt'' =
     ([geminiStoryCall emptyStore ''test prompt''],
      Inl (JObj [(''code'', JNum 403), (''message'', JStr ''Forbidden'')])) \<and>
   generateStoryBeat rt0 upRejectAuth emptyStore ''test prompt'' GEMINI =
     ([geminiStoryCall emptyStore ''test prompt''],
      Inl (mkError ''API_KEY_ERROR'')) \<and>
   openaiGenerateStory rt0 upRejectAuth emptyStore ''test prompt'' =
     ([openaiStoryCall emptyStore ''test prompt''],
      Inl (JObj [(''status'', JNum 401), (''message'', JStr ''Unauthorized'')])) \<and>
   generateStoryBeat rt0 upRejectAuth emptyStore ''test prompt'' OPENAI =
     ([openaiStoryCall emptyStore ''test prompt''], Inl (mkError ''API_KEY_ERROR'')) \<and>
   claudeGenerateStory rt0 upUnauthorized emptyStore ''test prompt'' =
     ([claudeStoryCall emptyStore ''test prompt''],
      Inl (mkError ''Claude API error: Unauthorized'')) \<and>
   generateStoryBeat rt0 upUnauthorized emptyStore ''test prompt'' CLAUDE =
     ([claudeStoryCall emptyStore ''test prompt''],
      Inl (mkError ''Claude API error: Unauthorized''))"
proof -
  have m: "or_else (or_else (opt_prop (JObj [(''code'', JNum 403), (''message'', JStr ''Forbidden'')]) ''message'')
                     (opt_prop (opt_prop (JObj [(''code'', JNum 403), (''message'', JStr ''Forbidden'')]) ''error'') ''message''))
             (JStr []) = JStr ''Forbidden''"
    by (simp add: or_else_def opt_prop_def)
  from story_error_classification
         [where rt = rt0 and up = upRejectAuth and ls = emptyStore and prompt = "''test prompt''"
            and e = "JObj [(''code'', JNum 403), (''message'', JStr ''Forbidden'')]"
            and m = "''Forbidden''"]
       gemini_story_rejected m
  have a: "generateStoryBeat rt0 upRejectAuth emptyStore ''test prompt'' GEMINI =
     ([geminiStoryCall emptyStore ''test prompt''],
      Inl (mkError ''API_KEY_ERROR''))"
    by (simp add: or_else_def opt_prop_def)
  from story_error_classification
         [where rt = rt0 and up = upRejectAuth and ls = emptyStore and prompt = "''test prompt''"
            and e = "JObj [(''status'', JNum 401), (''message'', JStr ''Unauthorized'')]"]
       openai_story_rejected
  have b: "generateStoryBeat rt0 upRejectAuth emptyStore ''test prompt'' OPENAI =
     ([openaiStoryCall emptyStore ''test prompt''], Inl (mkError ''API_KEY_ERROR''))"
    by (simp add: opt_prop_def)
  from story_error_classification
         [where rt = rt0 and up = upUnauthorized and ls = emptyStore and prompt = "''test prompt''"
            and e = "mkError ''Claude API error: Unauthorized''"]
       claude_story_unauthorized
  have c: "generateStoryBeat rt0 upUnauthorized emptyStore ''test prompt'' CLAUDE =
     ([claudeStoryCall emptyStore ''test prompt''],
      Inl (mkError ''Claude API error: Unauthorized''))"
    by (simp add: opt_prop_def mkError_def)
  from gemini_story_rejected openai_story_rejected claude_story_unauthorized a b c
  show ?thesis by simp
qed

text \<open>
  Claim C2 as stated fails: when the upstream answers with the HTTP status 401, the
  adapters of OpenAI and Claude throw an error made of the status text only, which the
  facade raises again as it is; and Gemini's rule does not know the code 401.
\<close>

theorem unauthorized_not_classified_counterexample:
  "generateStoryBeat rt0 upUnauthorized emptyStore ''test prompt'' OPENAI =
     ([openaiStoryCall emptyStore ''test prompt''],
      Inl (mkError ''OpenAI API error: Unauthorized'')) \<and>
   generateStoryBeat rt0 upUnauthorized emptyStore ''test prompt'' CLAUDE =
     ([claudeStoryCall emptyStore ''test prompt''],
      Inl (mkError ''Claude API error: Unauthorized'')) \<and>
   generateStoryBeat rt0 upUnauthorized emptyStore ''test prompt'' GEMINI =
     ([geminiStoryCall emptyStore ''test prompt''],
      Inl (JObj [(''code'', JNum 401), (''message'', JStr ''Unauthorized'')])) \<and>
   mkError ''OpenAI API error: Unauthorized'' \<noteq> mkError ''API_KEY_ERROR'' \<and>
   mkError ''Claude API error: Unauthorized'' \<noteq> mkError ''API_KEY_ERROR'' \<and>
   JObj [(''code'', JNum 401), (''message'', JStr ''Unauthorized'')] \<noteq> mkError ''API_KEY_ERROR''"
  by (simp add: generateStoryBeat_Inl openai_story_unauthorized claude_story_unauthorized
        gemini_story_unauthorized handleOpenAIError_def handleClaudeError_def
        handleGeminiError_def opt_prop_def or_else_def mkError_def string_defs)

section \<open>Saving the session\<close>

text \<open>
  Claim C3 on a store with no room left: the first write fails on the quota, the effect
  strips the images of all slots and writes once more, and the exception of this second
  write leaves the effect instead of being swallowed.
\<close>

theorem saveSync_retry_failure_escapes:
  "saveSyncEffect stringify fullStore True (Some gs) (Some ''slot-1'') h msgs stats now prevSaves =
     \<lparr>writes = [stringify (map (\<lambda>s. if slot_id s = ''slot-1''
                      then s\<lparr>gameState := gs, history := leanHistory h, chatMessages := msgs,
                             usageStats := stats, lastUpdated := now\<rparr>
                      else s) prevSaves),
                stringify (superLean (map (\<lambda>s. if slot_id s = ''slot-1''
                      then s\<lparr>gameState := gs, history := leanHistory h, chatMessages := msgs,
                             usageStats := stats, lastUpdated := now\<rparr>
                      else s) prevSaves))],
      outcome = Inl (DOMException ''QuotaExceededError''),
      store_after = fullStore\<rparr>"
  by (simp add: saveSyncEffect_def syncSaves_def setItem_def fullStore_def stored_size_def
        STORAGE_KEY_def Let_def)

end
